theory Spec2Isabelle
  imports Complex_Main "HOL-Library.Word"
begin

unbundle bit_operations_syntax

section \<open>Data model of the proxy group manager\<close>

text \<open>
  The structures of \<^verbatim>\<open>pg_manager.c\<close>. Identifiers (\<^verbatim>\<open>zbx_uint64_t\<close>) are only compared
  and sorted, never computed with, so they are natural numbers. Timestamps, delays and counters
  are C \<^verbatim>\<open>int\<close>s used far from their limits and are integers. Pointers into the cache's
  hashsets (\<^verbatim>\<open>proxy->group\<close>, \<^verbatim>\<open>group->proxies.values[i]\<close>,
  \<^verbatim>\<open>cache->group_updates.values[i]\<close>) are the identifier of the pointed object, looked up in
  the cache; a hashset is the list of its entries in iteration order.
\<close>

datatype proxy_status =
  ZBX_PG_PROXY_STATUS_UNKNOWN | ZBX_PG_PROXY_STATUS_OFFLINE | ZBX_PG_PROXY_STATUS_ONLINE

datatype group_status =
  ZBX_PG_GROUP_STATUS_UNKNOWN | ZBX_PG_GROUP_STATUS_ONLINE | ZBX_PG_GROUP_STATUS_OFFLINE
  | ZBX_PG_GROUP_STATUS_RECOVERY | ZBX_PG_GROUP_STATUS_DECAY

datatype error = OutOfBounds | DanglingPointer

record pg_host =
  h_hostid :: nat
  h_proxyid :: nat
  h_revision :: nat

record pg_proxy =
  p_proxyid :: nat
  p_name :: "string option"
  p_group :: nat
  p_lastaccess :: int
  p_firstaccess :: int
  p_status :: proxy_status
  p_hosts :: "nat list"

record pg_group =
  g_proxy_groupid :: nat
  g_failover_delay :: int
  g_min_online :: int
  g_status :: group_status
  g_status_time :: int
  g_flags :: "32 word"
  g_proxies :: "nat list"
  g_hostids :: "nat list"
  g_new_hostids :: "nat list"

record objmove =
  objid :: nat
  srcid :: nat
  dstid :: nat

record pg_cache =
  groups :: "pg_group list"
  proxies :: "pg_proxy list"
  group_updates :: "nat list"
  relocated_proxies :: "objmove list"
  hpmap_revision :: nat
  startup_time :: int

definition PGM_STATUS_CHECK_INTERVAL :: int where
  "PGM_STATUS_CHECK_INTERVAL = 5"

text \<open>
  Modelled from the spec: the two bits of the \<^verbatim>\<open>flags\<close> bitset of a group
  (\<^verbatim>\<open>UPDATE_STATUS\<close>, \<^verbatim>\<open>UPDATE_HP_MAP\<close>); their declaration in \<^verbatim>\<open>pg_cache.h\<close> is
  not among the sources. They are two distinct single bits.
\<close>

definition ZBX_PG_GROUP_UPDATE_STATUS :: "32 word" where
  "ZBX_PG_GROUP_UPDATE_STATUS = 1"

definition ZBX_PG_GROUP_UPDATE_HP_MAP :: "32 word" where
  "ZBX_PG_GROUP_UPDATE_HP_MAP = 2"

subsection \<open>Cache primitives\<close>

text \<open>
  Modelled from the spec: \<^verbatim>\<open>zbx_hashset_search\<close> on the group and the proxy hashset,
  the lookup by identifier in \<^verbatim>\<open>groups\<close> and \<^verbatim>\<open>proxies\<close>.
\<close>

definition group_search :: "pg_group list \<Rightarrow> nat \<Rightarrow> pg_group option" where
  "group_search gs gid = find (\<lambda>g. g_proxy_groupid g = gid) gs"

definition proxy_search :: "pg_proxy list \<Rightarrow> nat \<Rightarrow> pg_proxy option" where
  "proxy_search ps pid = find (\<lambda>p. p_proxyid p = pid) ps"

text \<open>A write through a group or proxy pointer.\<close>

definition group_store :: "nat \<Rightarrow> (pg_group \<Rightarrow> pg_group) \<Rightarrow> pg_group list \<Rightarrow> pg_group list" where
  "group_store gid f gs = map (\<lambda>g. if g_proxy_groupid g = gid then f g else g) gs"

definition proxy_store :: "nat \<Rightarrow> (pg_proxy \<Rightarrow> pg_proxy) \<Rightarrow> pg_proxy list \<Rightarrow> pg_proxy list" where
  "proxy_store pid f ps = map (\<lambda>p. if p_proxyid p = pid then f p else p) ps"

text \<open>
  Modelled from the spec: \<^verbatim>\<open>pg_cache_queue_group_update\<close> of \<^verbatim>\<open>pg_cache.c\<close>, which is
  not among the sources: an idempotent append to \<^verbatim>\<open>group_updates\<close>.
\<close>

definition pg_cache_queue_group_update :: "nat list \<Rightarrow> nat \<Rightarrow> nat list" where
  "pg_cache_queue_group_update q gid = (if gid \<in> set q then q else q @ [gid])"

text \<open>
  Modelled from the spec: \<^verbatim>\<open>pg_cache_group_add_proxy\<close> of \<^verbatim>\<open>pg_cache.c\<close>: creates the
  proxy or returns the existing one, and appends it to the group's proxies. The last
  argument is stored in \<^verbatim>\<open>firstaccess\<close>. The returned pointer is the proxy identifier.
\<close>

definition pg_cache_group_add_proxy ::
  "pg_cache \<Rightarrow> nat \<Rightarrow> nat \<Rightarrow> string option \<Rightarrow> int \<Rightarrow> pg_cache" where
  "pg_cache_group_add_proxy cache gid proxyid name clock =
     (let ps = (case proxy_search (proxies cache) proxyid of
                  Some p \<Rightarrow> proxies cache
                | None \<Rightarrow> proxies cache @
                    [\<lparr>p_proxyid = proxyid, p_name = name, p_group = gid, p_lastaccess = 0,
                      p_firstaccess = clock, p_status = ZBX_PG_PROXY_STATUS_UNKNOWN,
                      p_hosts = []\<rparr>])
      in cache\<lparr>proxies := ps,
               groups := group_store gid (\<lambda>g. g\<lparr>g_proxies := g_proxies g @ [proxyid]\<rparr>)
                           (groups cache)\<rparr>)"

text \<open>
  Modelled from the spec: \<^verbatim>\<open>pg_cache_group_remove_proxy\<close> of \<^verbatim>\<open>pg_cache.c\<close>: detaches
  the proxy from the group and returns it, or returns NULL when the cache has no such proxy.
\<close>

definition pg_cache_group_remove_proxy :: "pg_cache \<Rightarrow> nat \<Rightarrow> nat \<Rightarrow> nat option \<times> pg_cache" where
  "pg_cache_group_remove_proxy cache gid proxyid =
     (case proxy_search (proxies cache) proxyid of
        None \<Rightarrow> (None, cache)
      | Some p \<Rightarrow> (Some proxyid,
          cache\<lparr>groups := group_store gid (\<lambda>g. g\<lparr>g_proxies := remove1 proxyid (g_proxies g)\<rparr>)
                            (groups cache)\<rparr>))"

text \<open>
  Modelled from the spec: \<^verbatim>\<open>pg_cache_proxy_free\<close> of \<^verbatim>\<open>pg_cache.c\<close>: releases the
  proxy and hands its hosts back to the owning group's \<^verbatim>\<open>new_hostids\<close>.
\<close>

definition pg_cache_proxy_free :: "pg_cache \<Rightarrow> nat \<Rightarrow> pg_cache" where
  "pg_cache_proxy_free cache proxyid =
     (case proxy_search (proxies cache) proxyid of
        None \<Rightarrow> cache
      | Some p \<Rightarrow>
          cache\<lparr>proxies := filter (\<lambda>q. p_proxyid q \<noteq> proxyid) (proxies cache),
                groups := group_store (p_group p)
                            (\<lambda>g. g\<lparr>g_new_hostids := g_new_hostids g @ p_hosts p\<rparr>) (groups cache)\<rparr>)"

section \<open>Status evaluator: \<^verbatim>\<open>pgm_update_status\<close>\<close>

text \<open>
  The body of the first loop for one proxy, with the failover delay read through
  \<^verbatim>\<open>proxy->group\<close>. The first assignment is the source's line
  \<^verbatim>\<open>proxy->lastaccess = now\<close> (``WDN: override proxy last access for debugging'').
  The result is the proxy and whether the loop went on to apply the status and queue the group.
\<close>

definition pgm_update_proxy_status :: "int \<Rightarrow> int \<Rightarrow> int \<Rightarrow> pg_proxy \<Rightarrow> pg_proxy \<times> bool" where
  "pgm_update_proxy_status now startup failover_delay proxy0 =
     (let proxy = proxy0\<lparr>p_lastaccess := now\<rparr>;
          (status, proxy) =
            (if now - p_lastaccess proxy \<ge> failover_delay then
               (if now - startup \<ge> failover_delay
                then (ZBX_PG_PROXY_STATUS_OFFLINE, proxy\<lparr>p_firstaccess := 0\<rparr>)
                else (ZBX_PG_PROXY_STATUS_UNKNOWN, proxy))
             else
               (let proxy = (if p_firstaccess proxy = 0
                             then proxy\<lparr>p_firstaccess := p_lastaccess proxy\<rparr> else proxy)
                in (if now - p_firstaccess proxy \<ge> failover_delay
                    then ZBX_PG_PROXY_STATUS_ONLINE else ZBX_PG_PROXY_STATUS_UNKNOWN, proxy)))
      in if status = ZBX_PG_PROXY_STATUS_UNKNOWN \<or> p_status proxy = status
         then (proxy, False)
         else (proxy\<lparr>p_status := status\<rparr>, True))"

text \<open>The first loop, over the proxy hashset; \<^verbatim>\<open>q\<close> is \<^verbatim>\<open>cache->group_updates\<close>.\<close>

fun pgm_update_status_proxies ::
  "int \<Rightarrow> int \<Rightarrow> pg_group list \<Rightarrow> pg_proxy list \<Rightarrow> nat list \<Rightarrow> error + (pg_proxy list \<times> nat list)" where
  "pgm_update_status_proxies now startup gs [] q = Inr ([], q)"
| "pgm_update_status_proxies now startup gs (p # ps) q =
     (case group_search gs (p_group p) of
        None \<Rightarrow> Inl DanglingPointer
      | Some g \<Rightarrow>
          (let (p', queued) = pgm_update_proxy_status now startup (g_failover_delay g) p;
               q' = (if queued then pg_cache_queue_group_update q (g_proxy_groupid g) else q)
           in case pgm_update_status_proxies now startup gs ps q' of
                Inl e \<Rightarrow> Inl e
              | Inr (ps', q'') \<Rightarrow> Inr (p' # ps', q'')))"

text \<open>
  The inner counting loop of the second pass, \<^verbatim>\<open>for (j = 0; j < values_num; j++)\<close>, with
  \<^verbatim>\<open>k\<close> iterations left. As in the source every iteration reads
  \<^verbatim>\<open>group->proxies.values[i]\<close>, where \<^verbatim>\<open>i\<close> is the index of the group in
  \<^verbatim>\<open>group_updates\<close>; a read past the end of the vector is the error \<open>OutOfBounds\<close>.
\<close>

fun pgm_count_proxies ::
  "int \<Rightarrow> pg_proxy list \<Rightarrow> pg_group \<Rightarrow> nat \<Rightarrow> nat \<Rightarrow> int \<times> int \<Rightarrow> error + (int \<times> int)" where
  "pgm_count_proxies now ps grp i 0 acc = Inr acc"
| "pgm_count_proxies now ps grp i (Suc k) (online, healthy) =
     (if i < length (g_proxies grp) then
        (case proxy_search ps (g_proxies grp ! i) of
           None \<Rightarrow> Inl DanglingPointer
         | Some p \<Rightarrow>
             (if p_status p = ZBX_PG_PROXY_STATUS_ONLINE then
                pgm_count_proxies now ps grp i k
                  (online + 1,
                   if now - p_lastaccess p + PGM_STATUS_CHECK_INTERVAL < g_failover_delay grp
                   then healthy + 1 else healthy)
              else pgm_count_proxies now ps grp i k (online, healthy)))
      else Inl OutOfBounds)"

text \<open>The \<^verbatim>\<open>switch\<close> on the group status, with the fall-through from UNKNOWN to ONLINE.\<close>

definition pgm_group_status :: "int \<Rightarrow> pg_group \<Rightarrow> int \<Rightarrow> int \<Rightarrow> group_status" where
  "pgm_group_status now grp online healthy =
     (let status = g_status grp in
      case g_status grp of
        ZBX_PG_GROUP_STATUS_UNKNOWN \<Rightarrow>
          (let status = ZBX_PG_GROUP_STATUS_ONLINE in
           if g_min_online grp > healthy then ZBX_PG_GROUP_STATUS_DECAY else status)
      | ZBX_PG_GROUP_STATUS_ONLINE \<Rightarrow>
          (if g_min_online grp > healthy then ZBX_PG_GROUP_STATUS_DECAY else status)
      | ZBX_PG_GROUP_STATUS_OFFLINE \<Rightarrow>
          (if g_min_online grp \<le> online then ZBX_PG_GROUP_STATUS_RECOVERY else status)
      | ZBX_PG_GROUP_STATUS_RECOVERY \<Rightarrow>
          (if g_min_online grp > healthy then ZBX_PG_GROUP_STATUS_DECAY
           else if now - g_status_time grp > g_failover_delay grp
                   \<or> int (length (g_proxies grp)) = online
           then ZBX_PG_GROUP_STATUS_RECOVERY else status)
      | ZBX_PG_GROUP_STATUS_DECAY \<Rightarrow>
          (if g_min_online grp \<le> healthy then ZBX_PG_GROUP_STATUS_ONLINE
           else if g_min_online grp > online then ZBX_PG_GROUP_STATUS_OFFLINE else status))"

text \<open>The final \<^verbatim>\<open>if (status != group->status)\<close> block.\<close>

definition pgm_group_apply_status :: "int \<Rightarrow> group_status \<Rightarrow> pg_group \<Rightarrow> pg_group" where
  "pgm_group_apply_status now status grp =
     (if status \<noteq> g_status grp
      then grp\<lparr>g_status := status, g_status_time := now, g_flags := ZBX_PG_GROUP_UPDATE_STATUS\<rparr>
      else grp)"

text \<open>The body of the second loop for the group at index \<^verbatim>\<open>i\<close> of \<^verbatim>\<open>group_updates\<close>.\<close>

definition pgm_update_group_status ::
  "int \<Rightarrow> pg_proxy list \<Rightarrow> nat \<Rightarrow> pg_group \<Rightarrow> error + pg_group" where
  "pgm_update_group_status now ps i grp =
     (case pgm_count_proxies now ps grp i (length (g_proxies grp)) (0, 0) of
        Inl e \<Rightarrow> Inl e
      | Inr (online, healthy) \<Rightarrow>
          Inr (pgm_group_apply_status now (pgm_group_status now grp online healthy) grp))"

text \<open>The second loop: \<^verbatim>\<open>i\<close> is the index of the head of the rest of \<^verbatim>\<open>group_updates\<close>.\<close>

fun pgm_update_status_groups ::
  "int \<Rightarrow> pg_proxy list \<Rightarrow> nat \<Rightarrow> nat list \<Rightarrow> pg_group list \<Rightarrow> error + pg_group list" where
  "pgm_update_status_groups now ps i [] gs = Inr gs"
| "pgm_update_status_groups now ps i (gid # rest) gs =
     (case group_search gs gid of
        None \<Rightarrow> Inl DanglingPointer
      | Some grp \<Rightarrow>
          (case pgm_update_group_status now ps i grp of
             Inl e \<Rightarrow> Inl e
           | Inr grp' \<Rightarrow>
               pgm_update_status_groups now ps (Suc i) rest (group_store gid (\<lambda>g. grp') gs)))"

text \<open>
  Modelled from the spec: \<^verbatim>\<open>zbx_dc_get_group_proxy_lastaccess\<close> of the configuration
  cache, which is not among the sources: an in-place refresh of \<^verbatim>\<open>lastaccess\<close> per proxy,
  for the proxies the configuration cache knows.
\<close>

definition zbx_dc_get_group_proxy_lastaccess :: "(nat \<Rightarrow> int option) \<Rightarrow> pg_proxy list \<Rightarrow> pg_proxy list" where
  "zbx_dc_get_group_proxy_lastaccess dc ps =
     map (\<lambda>p. case dc (p_proxyid p) of None \<Rightarrow> p | Some t \<Rightarrow> p\<lparr>p_lastaccess := t\<rparr>) ps"

text \<open>\<^verbatim>\<open>pgm_update_status\<close>; \<^verbatim>\<open>now\<close> is the value of \<^verbatim>\<open>time(NULL)\<close>.\<close>

definition pgm_update_status :: "(nat \<Rightarrow> int option) \<Rightarrow> int \<Rightarrow> pg_cache \<Rightarrow> error + pg_cache" where
  "pgm_update_status dc now cache =
     (let ps = zbx_dc_get_group_proxy_lastaccess dc (proxies cache) in
      case pgm_update_status_proxies now (startup_time cache) (groups cache) ps
             (group_updates cache) of
        Inl e \<Rightarrow> Inl e
      | Inr (ps', q) \<Rightarrow>
          (case pgm_update_status_groups now ps' 0 q (groups cache) of
             Inl e \<Rightarrow> Inl e
           | Inr gs \<Rightarrow> Inr (cache\<lparr>proxies := ps', group_updates := q, groups := gs\<rparr>)))"

section \<open>Bootstrap: \<^verbatim>\<open>pgm_db_get_proxies\<close>\<close>

text \<open>
  A row of the query on \<^verbatim>\<open>proxy\<close> joined with \<^verbatim>\<open>proxy_rtdata\<close>: proxyid, proxy_groupid,
  lastaccess (the value of \<^verbatim>\<open>atoi(row[2])\<close>) and name.
\<close>

type_synonym proxy_row = "nat \<times> nat \<times> int \<times> string"

text \<open>
  The fetch loop. A row of an unknown group is skipped. The persisted lastaccess goes
  into \<^verbatim>\<open>firstaccess\<close>; then comes the source's
  \<^verbatim>\<open>if (proxy->firstaccess < clock) proxy->firstaccess = clock\<close>, which writes the proxy
  and leaves \<^verbatim>\<open>clock\<close> as it is.
\<close>

fun pgm_db_get_proxies_fetch :: "int \<Rightarrow> proxy_row list \<Rightarrow> pg_cache \<Rightarrow> pg_cache" where
  "pgm_db_get_proxies_fetch clock [] cache = cache"
| "pgm_db_get_proxies_fetch clock ((proxyid, proxy_groupid, lastaccess, name) # rows) cache =
     (case group_search (groups cache) proxy_groupid of
        None \<Rightarrow> pgm_db_get_proxies_fetch clock rows cache
      | Some grp \<Rightarrow>
          (let cache = pg_cache_group_add_proxy cache proxy_groupid proxyid (Some name) lastaccess;
               cache = cache\<lparr>proxies :=
                 proxy_store proxyid
                   (\<lambda>proxy. if p_firstaccess proxy < clock
                            then proxy\<lparr>p_firstaccess := clock\<rparr> else proxy)
                   (proxies cache)\<rparr>
           in pgm_db_get_proxies_fetch clock rows cache))"

text \<open>
  The classification loop over the proxy hashset, ending with the source's
  \<^verbatim>\<open>proxy->status = ZBX_PG_PROXY_STATUS_ONLINE\<close> (``WDN: force online status'').
\<close>

fun pgm_db_get_proxies_classify ::
  "int \<Rightarrow> pg_group list \<Rightarrow> pg_proxy list \<Rightarrow> error + pg_proxy list" where
  "pgm_db_get_proxies_classify clock gs [] = Inr []"
| "pgm_db_get_proxies_classify clock gs (proxy # ps) =
     (case group_search gs (p_group proxy) of
        None \<Rightarrow> Inl DanglingPointer
      | Some grp \<Rightarrow>
          (let proxy = (if clock - p_firstaccess proxy \<ge> g_failover_delay grp
                        then proxy\<lparr>p_status := ZBX_PG_PROXY_STATUS_OFFLINE\<rparr>
                        else proxy\<lparr>p_status := ZBX_PG_PROXY_STATUS_ONLINE\<rparr>);
               proxy = proxy\<lparr>p_firstaccess := 0\<rparr>;
               proxy = proxy\<lparr>p_status := ZBX_PG_PROXY_STATUS_ONLINE\<rparr>
           in case pgm_db_get_proxies_classify clock gs ps of
                Inl e \<Rightarrow> Inl e
              | Inr ps' \<Rightarrow> Inr (proxy # ps')))"

definition pgm_db_get_proxies :: "proxy_row list \<Rightarrow> pg_cache \<Rightarrow> error + pg_cache" where
  "pgm_db_get_proxies rows cache0 =
     (let clock = 0;
          cache = pgm_db_get_proxies_fetch clock rows cache0
      in case pgm_db_get_proxies_classify clock (groups cache) (proxies cache) of
           Inl e \<Rightarrow> Inl e
         | Inr ps \<Rightarrow> Inr (cache\<lparr>proxies := ps\<rparr>))"

section \<open>The database\<close>

text \<open>
  Modelled from the spec: the database and the \<^verbatim>\<open>zbx_db_*\<close> layer, which are not among
  the sources. The database is the tables of the persisted schema the manager reads and
  writes, and the log of the statements it has executed. The SQL text built in the
  \<^verbatim>\<open>sql\<close> buffer is a statement value; statements run in the order they are written
  to the buffer.
\<close>

datatype db_table = TBL_hosts | TBL_proxy

datatype db_stmt =
    DB_begin
  | DB_commit int
  | DB_update_proxy_group nat group_status
  | DB_update_host_proxy nat nat nat
  | DB_delete_host_proxy "nat list"
  | DB_select_for_update db_table "nat list"
  | DB_insert_host_proxy "pg_host list"
  | DB_select_revision
  | DB_insert_revision nat
  | DB_update_revision nat

record db =
  db_hosts :: "nat list"
  db_proxy :: "(nat \<times> string) list"
  db_proxy_group :: "(nat \<times> group_status) list"
  db_host_proxy :: "pg_host list"
  db_ids_revision :: "nat option"
  db_log :: "db_stmt list"

text \<open>
  Modelled from the spec: what a statement does to the tables; every statement is logged.
\<close>

definition db_exec :: "db_stmt \<Rightarrow> db \<Rightarrow> db" where
  "db_exec s d0 =
     (let d = d0\<lparr>db_log := db_log d0 @ [s]\<rparr> in
      case s of
        DB_update_proxy_group gid st \<Rightarrow>
          d\<lparr>db_proxy_group := map (\<lambda>r. if fst r = gid then (gid, st) else r) (db_proxy_group d)\<rparr>
      | DB_update_host_proxy pid revision hid \<Rightarrow>
          d\<lparr>db_host_proxy := map (\<lambda>r. if h_hostid r = hid
                                       then r\<lparr>h_proxyid := pid, h_revision := revision\<rparr> else r)
                                 (db_host_proxy d)\<rparr>
      | DB_delete_host_proxy ids \<Rightarrow>
          d\<lparr>db_host_proxy := filter (\<lambda>r. h_hostid r \<notin> set ids) (db_host_proxy d)\<rparr>
      | DB_insert_host_proxy rows \<Rightarrow>
          d\<lparr>db_host_proxy := db_host_proxy d @ rows\<rparr>
      | DB_insert_revision revision \<Rightarrow> d\<lparr>db_ids_revision := Some revision\<rparr>
      | DB_update_revision revision \<Rightarrow> d\<lparr>db_ids_revision := Some revision\<rparr>
      | _ \<Rightarrow> d)"

text \<open>
  Modelled from the spec: the results of \<^verbatim>\<open>zbx_db_commit\<close>, success
  (\<^verbatim>\<open>ZBX_DB_OK\<close>), failure and database down, and \<^verbatim>\<open>zbx_db_commit\<close> with the result
  \<^verbatim>\<open>ret\<close> the database gives: \<^verbatim>\<open>d0\<close> is the database at \<^verbatim>\<open>zbx_db_begin\<close>,
  \<^verbatim>\<open>d\<close> the database after the statements of the transaction. A commit that does not
  succeed leaves the tables as they were.
\<close>

definition ZBX_DB_OK :: int where
  "ZBX_DB_OK = 0"

definition ZBX_DB_FAIL :: int where
  "ZBX_DB_FAIL = - 1"

definition ZBX_DB_DOWN :: int where
  "ZBX_DB_DOWN = - 2"

definition zbx_db_commit :: "int \<Rightarrow> db \<Rightarrow> db \<Rightarrow> db" where
  "zbx_db_commit ret d0 d =
     (if ZBX_DB_OK \<le> ret then d\<lparr>db_log := db_log d @ [DB_commit ret]\<rparr>
      else d0\<lparr>db_log := db_log d @ [DB_commit ret]\<rparr>)"

text \<open>
  Modelled from the spec: \<^verbatim>\<open>zbx_vector_uint64_sort\<close> followed by
  \<^verbatim>\<open>zbx_vector_uint64_uniq\<close>, which are not among the sources: the sorted, deduplicated
  identifier list.
\<close>

definition sort_uniq :: "nat list \<Rightarrow> nat list" where
  "sort_uniq ids = remdups_adj (sort ids)"

text \<open>
  Modelled from the spec: \<^verbatim>\<open>zbx_db_insert_execute\<close> on \<^verbatim>\<open>host_proxy\<close>, which is not
  among the sources: the rows added to the insert are inserted; nothing is sent when no
  row was added.
\<close>

definition zbx_db_insert_execute :: "pg_host list \<Rightarrow> db \<Rightarrow> db" where
  "zbx_db_insert_execute rows d =
     (if rows = [] then d else db_exec (DB_insert_host_proxy rows) d)"

section \<open>Persister: \<^verbatim>\<open>pgm_flush_updates\<close>\<close>

text \<open>
  The snapshot drained by \<^verbatim>\<open>pg_cache_get_updates\<close>: the group updates
  (\<^verbatim>\<open>zbx_pg_update_t\<close>) and the new, modified and deleted host mappings.
\<close>

record pg_update =
  u_proxy_groupid :: nat
  u_status :: group_status
  u_flags :: "32 word"

record pg_updates =
  u_groups :: "pg_update list"
  u_hosts_new :: "pg_host list"
  u_hosts_mod :: "pg_host list"
  u_hosts_del :: "pg_host list"

definition pgm_db_flush_group_updates :: "pg_update list \<Rightarrow> db \<Rightarrow> db" where
  "pgm_db_flush_group_updates gs d =
     fold (\<lambda>g d. if 0 = (u_flags g AND ZBX_PG_GROUP_UPDATE_STATUS) then d
                 else db_exec (DB_update_proxy_group (u_proxy_groupid g) (u_status g)) d) gs d"

definition pgm_db_flush_host_proxy_updates :: "pg_host list \<Rightarrow> db \<Rightarrow> db" where
  "pgm_db_flush_host_proxy_updates hosts d =
     fold (\<lambda>h d. db_exec (DB_update_host_proxy (h_proxyid h) (h_revision h) (h_hostid h)) d)
       hosts d"

definition pgm_db_flush_host_proxy_deletes :: "pg_host list \<Rightarrow> db \<Rightarrow> db" where
  "pgm_db_flush_host_proxy_deletes hosts d =
     (if length hosts = 0 then d
      else db_exec (DB_delete_host_proxy (sort (map h_hostid hosts))) d)"

text \<open>
  \<^verbatim>\<open>pgm_db_get_recids_for_update\<close>: the identifiers are sorted and made unique, the
  rows of the table with one of them are selected \<^verbatim>\<open>for update\<close>, and the identifiers
  the query returns form the index.
\<close>

definition pgm_db_get_recids_for_update :: "nat list \<Rightarrow> db_table \<Rightarrow> db \<Rightarrow> nat list \<times> db" where
  "pgm_db_get_recids_for_update ids0 tbl d =
     (let ids = sort_uniq ids0;
          recs = (case tbl of TBL_hosts \<Rightarrow> db_hosts d | TBL_proxy \<Rightarrow> map fst (db_proxy d))
      in (filter (\<lambda>i. i \<in> set ids) recs, db_exec (DB_select_for_update tbl ids) d))"

definition pgm_db_flush_host_proxy_insert_batch :: "pg_host list \<Rightarrow> db \<Rightarrow> db" where
  "pgm_db_flush_host_proxy_insert_batch hosts d =
     (let hostids = map h_hostid hosts;
          proxyids = map h_proxyid hosts;
          (host_index, d) = pgm_db_get_recids_for_update hostids TBL_hosts d;
          (proxy_index, d) = pgm_db_get_recids_for_update proxyids TBL_proxy d;
          rows = filter (\<lambda>h. h_hostid h \<in> set host_index \<and> h_proxyid h \<in> set proxy_index) hosts
      in zbx_db_insert_execute rows d)"

definition PGM_INSERT_BATCH_SIZE :: nat where
  "PGM_INSERT_BATCH_SIZE = 1000"

text \<open>
  The loop of \<^verbatim>\<open>pgm_db_flush_host_proxy_inserts\<close>; the batch
  \<^verbatim>\<open>(hosts->values + i, size)\<close> is \<open>take size (drop i hosts)\<close>.
\<close>

function pgm_db_flush_host_proxy_inserts_loop :: "nat \<Rightarrow> pg_host list \<Rightarrow> db \<Rightarrow> db" where
  "pgm_db_flush_host_proxy_inserts_loop i hosts d =
     (if i < length hosts then
        (let size = length hosts - i;
             size = (if PGM_INSERT_BATCH_SIZE < size then PGM_INSERT_BATCH_SIZE else size)
         in pgm_db_flush_host_proxy_inserts_loop (i + PGM_INSERT_BATCH_SIZE) hosts
              (pgm_db_flush_host_proxy_insert_batch (take size (drop i hosts)) d))
      else d)"
  by pat_completeness auto
termination
  by (relation "measure (\<lambda>(i, hosts, d). length hosts - i)")
     (auto simp: PGM_INSERT_BATCH_SIZE_def)

text \<open>
  \<^verbatim>\<open>pgm_db_flush_host_proxy_inserts\<close>; its own \<^verbatim>\<open>db_insert\<close> never gets a row, so
  the final \<^verbatim>\<open>zbx_db_insert_execute\<close> is the one of an empty insert.
\<close>

definition pgm_db_flush_host_proxy_inserts :: "pg_host list \<Rightarrow> db \<Rightarrow> db" where
  "pgm_db_flush_host_proxy_inserts hosts d =
     zbx_db_insert_execute [] (pgm_db_flush_host_proxy_inserts_loop 0 hosts d)"

definition pgm_db_flush_host_proxy_revision :: "nat \<Rightarrow> db \<Rightarrow> db" where
  "pgm_db_flush_host_proxy_revision revision d0 =
     (let d = db_exec DB_select_revision d0 in
      case db_ids_revision d of
        None \<Rightarrow> db_exec (DB_insert_revision revision) d
      | Some r \<Rightarrow> db_exec (DB_update_revision revision) d)"

text \<open>
  The configuration cache peer is the list of the calls
  \<^verbatim>\<open>zbx_dc_update_group_hpmap_revision(groupids, revision)\<close> it has received.
\<close>

type_synonym dc = "(nat list \<times> nat) list"

definition pgm_dc_flush_host_proxy_revision :: "pg_update list \<Rightarrow> nat \<Rightarrow> dc \<Rightarrow> dc" where
  "pgm_dc_flush_host_proxy_revision gs revision dc =
     dc @ [(map u_proxy_groupid (filter (\<lambda>g. 0 \<noteq> (u_flags g AND ZBX_PG_GROUP_UPDATE_HP_MAP)) gs),
            revision)]"

text \<open>The body of the \<^verbatim>\<open>do\<close> loop, from \<^verbatim>\<open>zbx_db_begin\<close> to the revision upsert.\<close>

definition pgm_flush_body :: "pg_updates \<Rightarrow> nat \<Rightarrow> db \<Rightarrow> db" where
  "pgm_flush_body u revision d0 =
     (let d = db_exec DB_begin d0;
          d = pgm_db_flush_group_updates (u_groups u) d;
          d = pgm_db_flush_host_proxy_updates (u_hosts_mod u) d;
          d = pgm_db_flush_host_proxy_deletes (u_hosts_del u) d;
          d = pgm_db_flush_host_proxy_inserts (u_hosts_new u) d
      in pgm_db_flush_host_proxy_revision revision d)"

text \<open>One round of the loop: the body, then \<^verbatim>\<open>zbx_db_commit\<close> returning \<^verbatim>\<open>ret\<close>.\<close>

definition pgm_flush_attempt :: "pg_updates \<Rightarrow> nat \<Rightarrow> int \<Rightarrow> db \<Rightarrow> db" where
  "pgm_flush_attempt u revision ret d = zbx_db_commit ret d (pgm_flush_body u revision d)"

text \<open>
  The \<^verbatim>\<open>do ... while (ZBX_DB_DOWN == (ret = zbx_db_commit()))\<close> loop. The results of
  the successive commits are given by the database, as a list; the loop has not returned
  (\<open>None\<close>) while every commit so far reported the database down.
\<close>

fun pgm_flush_retry :: "int list \<Rightarrow> pg_updates \<Rightarrow> nat \<Rightarrow> db \<Rightarrow> (int \<times> db) option" where
  "pgm_flush_retry [] u revision d = None"
| "pgm_flush_retry (ret # commits) u revision d =
     (let d' = pgm_flush_attempt u revision ret d in
      if ZBX_DB_DOWN = ret then pgm_flush_retry commits u revision d' else Some (ret, d'))"

text \<open>
  \<^verbatim>\<open>pgm_flush_updates\<close> on the drained snapshot \<^verbatim>\<open>u\<close>, with
  \<^verbatim>\<open>revision = cache->hpmap_revision\<close>.
\<close>

definition pgm_flush_updates ::
  "int list \<Rightarrow> pg_updates \<Rightarrow> nat \<Rightarrow> db \<times> dc \<Rightarrow> (db \<times> dc) option" where
  "pgm_flush_updates commits u revision s =
     (case s of (d, dc) \<Rightarrow>
        if 0 \<noteq> length (u_groups u) \<or> 0 \<noteq> length (u_hosts_new u)
           \<or> 0 \<noteq> length (u_hosts_mod u) \<or> 0 \<noteq> length (u_hosts_del u)
        then (case pgm_flush_retry commits u revision d of
                None \<Rightarrow> None
              | Some (ret, d') \<Rightarrow>
                  Some (d', if ZBX_DB_OK \<le> ret
                            then pgm_dc_flush_host_proxy_revision (u_groups u) revision dc
                            else dc))
        else Some (d, dc))"

section \<open>Proxy relocator: \<^verbatim>\<open>pgm_update_proxies\<close>\<close>

text \<open>
  Modelled from the spec: the result of the query of \<^verbatim>\<open>pgm_get_proxy_names\<close>,
  \<^verbatim>\<open>select proxyid,name from proxy where proxyid in (...) order by proxyid\<close>.
\<close>

definition db_select_proxy_names :: "db \<Rightarrow> nat list \<Rightarrow> (nat \<times> string) list" where
  "db_select_proxy_names d proxyids =
     sort_key fst (filter (\<lambda>r. fst r \<in> set proxyids) (db_proxy d))"

text \<open>
  The fetch loop of \<^verbatim>\<open>pgm_get_proxy_names\<close>, at index \<^verbatim>\<open>i\<close> of \<^verbatim>\<open>proxyids\<close>. A
  \<^verbatim>\<open>NULL\<close> name is \<open>None\<close>. The loop ends when the rows end, when \<^verbatim>\<open>i\<close> reaches
  \<^verbatim>\<open>values_num\<close>, or at \<^verbatim>\<open>goto out\<close>.
\<close>

function pgm_get_proxy_names_fetch ::
  "(nat \<times> string) list \<Rightarrow> nat list \<Rightarrow> nat \<Rightarrow> string option list \<Rightarrow> string option list" where
  "pgm_get_proxy_names_fetch [] proxyids i names = names"
| "pgm_get_proxy_names_fetch ((proxyid, name) # rows) proxyids i names =
     (if i < length proxyids then
        (if proxyids ! i \<noteq> proxyid then
           (if Suc i = length proxyids then names @ [None]
            else pgm_get_proxy_names_fetch ((proxyid, name) # rows) proxyids (Suc i)
                   (names @ [None]))
         else pgm_get_proxy_names_fetch rows proxyids (Suc i) (names @ [Some name]))
      else names)"
  by pat_completeness auto
termination
  by (relation "measure (\<lambda>(rows, proxyids, i, names). length rows + (length proxyids - i))")
     auto

definition pgm_get_proxy_names :: "db \<Rightarrow> nat list \<Rightarrow> string option list" where
  "pgm_get_proxy_names d proxyids =
     pgm_get_proxy_names_fetch (db_select_proxy_names d proxyids) proxyids 0 []"

text \<open>
  Modelled from the spec: \<^verbatim>\<open>zbx_vector_uint64_search\<close>, which is not among the sources:
  the index of the value in the vector, or \<^verbatim>\<open>FAIL\<close> (\<open>None\<close>).
\<close>

fun zbx_vector_uint64_search :: "nat list \<Rightarrow> nat \<Rightarrow> nat option" where
  "zbx_vector_uint64_search [] v = None"
| "zbx_vector_uint64_search (x # xs) v =
     (if x = v then Some 0 else map_option Suc (zbx_vector_uint64_search xs v))"

text \<open>The first loop: the identifiers of the relocated proxies the cache does not have.\<close>

fun pgm_update_proxies_collect :: "pg_proxy list \<Rightarrow> objmove list \<Rightarrow> nat list \<Rightarrow> nat list" where
  "pgm_update_proxies_collect ps [] proxyids = proxyids"
| "pgm_update_proxies_collect ps (reloc # rest) proxyids =
     (if 0 = dstid reloc then pgm_update_proxies_collect ps rest proxyids
      else if proxy_search ps (objid reloc) = None
      then pgm_update_proxies_collect ps rest (proxyids @ [objid reloc])
      else pgm_update_proxies_collect ps rest proxyids)"

text \<open>
  The body of the second loop for one relocation. \<^verbatim>\<open>names.values[j]\<close> past the end of
  \<^verbatim>\<open>names\<close> is the error \<open>OutOfBounds\<close>.
\<close>

definition pgm_relocate_proxy ::
  "nat list \<Rightarrow> string option list \<Rightarrow> objmove \<Rightarrow> pg_cache \<Rightarrow> error + pg_cache" where
  "pgm_relocate_proxy proxyids names reloc cache0 =
     (let (proxy, cache) =
            (if 0 \<noteq> srcid reloc then
               (case group_search (groups cache0) (srcid reloc) of
                  None \<Rightarrow> (None, cache0)
                | Some grp \<Rightarrow>
                    (let (proxy, cache) =
                           pg_cache_group_remove_proxy cache0 (srcid reloc) (objid reloc)
                     in (proxy, cache\<lparr>group_updates :=
                           pg_cache_queue_group_update (group_updates cache) (srcid reloc)\<rparr>)))
             else (None, cache0))
      in if 0 \<noteq> dstid reloc then
           (case group_search (groups cache) (dstid reloc) of
              None \<Rightarrow> Inr cache
            | Some grp \<Rightarrow>
                (case (case proxy of
                         None \<Rightarrow>
                           (case zbx_vector_uint64_search proxyids (objid reloc) of
                              Some j \<Rightarrow>
                                (if j < length names
                                 then Inr (pg_cache_group_add_proxy cache (dstid reloc)
                                             (objid reloc) (names ! j) 0)
                                 else Inl OutOfBounds)
                            | None \<Rightarrow>
                                Inr (pg_cache_group_add_proxy cache (dstid reloc)
                                       (objid reloc) (Some []) 0))
                       | Some p \<Rightarrow>
                           Inr (cache\<lparr>groups :=
                                  group_store (dstid reloc)
                                    (\<lambda>g. g\<lparr>g_proxies := g_proxies g @ [p]\<rparr>) (groups cache)\<rparr>)) of
                   Inl e \<Rightarrow> Inl e
                 | Inr cache \<Rightarrow>
                     Inr (cache\<lparr>group_updates :=
                            pg_cache_queue_group_update (group_updates cache) (dstid reloc)\<rparr>)))
         else (case proxy of
                 None \<Rightarrow> Inr cache
               | Some p \<Rightarrow> Inr (pg_cache_proxy_free cache p)))"

fun pgm_update_proxies_relocate ::
  "nat list \<Rightarrow> string option list \<Rightarrow> objmove list \<Rightarrow> pg_cache \<Rightarrow> error + pg_cache" where
  "pgm_update_proxies_relocate proxyids names [] cache = Inr cache"
| "pgm_update_proxies_relocate proxyids names (reloc # rest) cache =
     (case pgm_relocate_proxy proxyids names reloc cache of
        Inl e \<Rightarrow> Inl e
      | Inr cache' \<Rightarrow> pgm_update_proxies_relocate proxyids names rest cache')"

text \<open>
  \<^verbatim>\<open>pgm_update_proxies\<close>, run without interference of the other thread while the lock
  is released for the query.
\<close>

definition pgm_update_proxies :: "db \<Rightarrow> pg_cache \<Rightarrow> error + pg_cache" where
  "pgm_update_proxies d cache =
     (let proxyids = pgm_update_proxies_collect (proxies cache) (relocated_proxies cache) [];
          (proxyids, names) =
            (if 0 \<noteq> length proxyids
             then (let proxyids = sort_uniq proxyids in (proxyids, pgm_get_proxy_names d proxyids))
             else (proxyids, []))
      in case pgm_update_proxies_relocate proxyids names (relocated_proxies cache) cache of
           Inl e \<Rightarrow> Inl e
         | Inr cache' \<Rightarrow> Inr (cache'\<lparr>relocated_proxies := []\<rparr>))"

section \<open>Control loop: \<^verbatim>\<open>pg_manager_thread\<close>\<close>

text \<open>
  One iteration of the \<^verbatim>\<open>while (ZBX_IS_RUNNING())\<close> loop. The four operations on the
  cache, the idle sleep (during which the other thread may change the cache) and the two
  queue lengths are parameters; the iteration records the calls it makes. \<^verbatim>\<open>zbx_time()\<close>
  is a \<^verbatim>\<open>double\<close>, read here as a real number.
\<close>

datatype pgm_call =
  CALL_pgm_update_groups | CALL_pgm_update_status | CALL_pgm_update_proxies
  | CALL_zbx_sleep_loop | CALL_pgm_flush_updates

record 'c pgm_ops =
  op_update_groups :: "'c \<Rightarrow> 'c"
  op_update_status :: "'c \<Rightarrow> 'c"
  op_update_proxies :: "'c \<Rightarrow> 'c"
  op_sleep_loop :: "'c \<Rightarrow> 'c"
  op_flush_updates :: "'c \<Rightarrow> 'c"
  op_relocated_proxies_num :: "'c \<Rightarrow> nat"
  op_group_updates_num :: "'c \<Rightarrow> nat"

record 'c pgm_thread =
  t_time_update :: real
  t_cache :: 'c
  t_calls :: "pgm_call list"

definition pgm_call :: "pgm_call \<Rightarrow> ('c \<Rightarrow> 'c) \<Rightarrow> 'c pgm_thread \<Rightarrow> 'c pgm_thread" where
  "pgm_call c f t = t\<lparr>t_cache := f (t_cache t), t_calls := t_calls t @ [c]\<rparr>"

definition pg_manager_iteration :: "'c pgm_ops \<Rightarrow> real \<Rightarrow> 'c pgm_thread \<Rightarrow> 'c pgm_thread" where
  "pg_manager_iteration ops time_now t0 =
     (let t = (if real_of_int PGM_STATUS_CHECK_INTERVAL \<ge> t_time_update t0 - time_now then
                 (let t = pgm_call CALL_pgm_update_groups (op_update_groups ops) t0;
                      t = pgm_call CALL_pgm_update_status (op_update_status ops) t
                  in t\<lparr>t_time_update := time_now\<rparr>)
               else t0);
          t = (if 0 \<noteq> op_relocated_proxies_num ops (t_cache t)
               then pgm_call CALL_pgm_update_proxies (op_update_proxies ops) t else t);
          t = pgm_call CALL_zbx_sleep_loop (op_sleep_loop ops) t;
          t = (if 0 \<noteq> op_group_updates_num ops (t_cache t)
               then pgm_call CALL_pgm_flush_updates (op_flush_updates ops) t else t)
      in t)"

section \<open>Reference notions for the insert flush\<close>

text \<open>
  Following the spec's words: the batches of at most 1000 rows a list of new mappings is
  cut into, whether the host and the proxy of a mapping still exist in the database, and
  the statements one batch sends.
\<close>

function insert_batches :: "pg_host list \<Rightarrow> pg_host list list" where
  "insert_batches hosts =
     (if hosts = [] then [] else take 1000 hosts # insert_batches (drop 1000 hosts))"
  by pat_completeness auto
termination
  by (relation "measure length") auto

definition host_proxy_exist :: "db \<Rightarrow> pg_host \<Rightarrow> bool" where
  "host_proxy_exist d h =
     (h_hostid h \<in> set (db_hosts d) \<and> h_proxyid h \<in> set (map fst (db_proxy d)))"

definition batch_statements :: "db \<Rightarrow> pg_host list \<Rightarrow> db_stmt list" where
  "batch_statements d hosts =
     [DB_select_for_update TBL_hosts (sort_uniq (map h_hostid hosts)),
      DB_select_for_update TBL_proxy (sort_uniq (map h_proxyid hosts))]
     @ (if filter (host_proxy_exist d) hosts = [] then []
        else [DB_insert_host_proxy (filter (host_proxy_exist d) hosts)])"

text \<open>
  Following the spec's words: the statements of one transaction body, in order: begin,
  the status update of each group carrying \<^verbatim>\<open>UPDATE_STATUS\<close>, the update of each
  modified mapping, one delete for the deleted mappings, the insert batches, and the
  upsert of the revision row. \<open>revision_stmt\<close> tells the two statements that write the
  revision row.
\<close>

definition body_statements :: "pg_updates \<Rightarrow> nat \<Rightarrow> db \<Rightarrow> db_stmt list" where
  "body_statements u revision d =
     [DB_begin]
     @ map (\<lambda>g. DB_update_proxy_group (u_proxy_groupid g) (u_status g))
         (filter (\<lambda>g. u_flags g AND ZBX_PG_GROUP_UPDATE_STATUS \<noteq> 0) (u_groups u))
     @ map (\<lambda>h. DB_update_host_proxy (h_proxyid h) (h_revision h) (h_hostid h)) (u_hosts_mod u)
     @ (if u_hosts_del u = [] then []
        else [DB_delete_host_proxy (sort (map h_hostid (u_hosts_del u)))])
     @ concat (map (batch_statements d) (insert_batches (u_hosts_new u)))
     @ [DB_select_revision,
        case db_ids_revision d of
          None \<Rightarrow> DB_insert_revision revision
        | Some r \<Rightarrow> DB_update_revision revision]"

fun revision_stmt :: "db_stmt \<Rightarrow> bool" where
  "revision_stmt (DB_insert_revision r) = True"
| "revision_stmt (DB_update_revision r) = True"
| "revision_stmt s = False"

section \<open>Concrete states\<close>

text \<open>
  A group with failover delay 60 and quorum 1, and a cache started at time 0 that holds
  the given groups and proxies.
\<close>

definition group_60 :: "nat \<Rightarrow> group_status \<Rightarrow> nat list \<Rightarrow> pg_group" where
  "group_60 gid st ps =
     \<lparr>g_proxy_groupid = gid, g_failover_delay = 60, g_min_online = 1, g_status = st,
      g_status_time = 0, g_flags = 0, g_proxies = ps, g_hostids = [], g_new_hostids = []\<rparr>"

definition proxy_of :: "nat \<Rightarrow> nat \<Rightarrow> proxy_status \<Rightarrow> int \<Rightarrow> int \<Rightarrow> pg_proxy" where
  "proxy_of pid gid st lastaccess firstaccess =
     \<lparr>p_proxyid = pid, p_name = Some [], p_group = gid, p_lastaccess = lastaccess,
      p_firstaccess = firstaccess, p_status = st, p_hosts = []\<rparr>"

definition cache_of :: "pg_group list \<Rightarrow> pg_proxy list \<Rightarrow> nat list \<Rightarrow> pg_cache" where
  "cache_of gs ps q =
     \<lparr>groups = gs, proxies = ps, group_updates = q, relocated_proxies = [],
      hpmap_revision = 0, startup_time = 0\<rparr>"

text \<open>The configuration cache reports the last access 900 for proxy 10 and 1000 for every other.\<close>

definition dc_lastaccess :: "nat \<Rightarrow> int option" where
  "dc_lastaccess pid = (if pid = 10 then Some 900 else Some 1000)"

text \<open>A proxy that is ONLINE and was last heard 100 seconds before time 1000.\<close>

definition silent_cache :: pg_cache where
  "silent_cache =
     cache_of [group_60 1 ZBX_PG_GROUP_STATUS_ONLINE [10]]
       [proxy_of 10 1 ZBX_PG_PROXY_STATUS_ONLINE 900 100] []"

text \<open>A queued group in RECOVERY since time 0 whose only proxy is ONLINE.\<close>

definition recovery_cache :: pg_cache where
  "recovery_cache =
     cache_of [group_60 1 ZBX_PG_GROUP_STATUS_RECOVERY [11]]
       [proxy_of 11 1 ZBX_PG_PROXY_STATUS_ONLINE 1000 100] [1]"

text \<open>A queued OFFLINE group with quorum 2, one proxy ONLINE and one OFFLINE.\<close>

definition mixed_cache :: pg_cache where
  "mixed_cache =
     cache_of [(group_60 1 ZBX_PG_GROUP_STATUS_OFFLINE [11, 12])\<lparr>g_min_online := 2\<rparr>]
       [proxy_of 11 1 ZBX_PG_PROXY_STATUS_ONLINE 1000 100,
        proxy_of 12 1 ZBX_PG_PROXY_STATUS_OFFLINE 1000 0] [1]"

text \<open>Two queued groups of one proxy each; the second is at index 1 of the queue.\<close>

definition two_group_cache :: pg_cache where
  "two_group_cache =
     cache_of [group_60 1 ZBX_PG_GROUP_STATUS_ONLINE [11], group_60 2 ZBX_PG_GROUP_STATUS_ONLINE [12]]
       [proxy_of 11 1 ZBX_PG_PROXY_STATUS_ONLINE 1000 100,
        proxy_of 12 2 ZBX_PG_PROXY_STATUS_ONLINE 1000 100] [1, 2]"

text \<open>A queued ONLINE group flagged \<^verbatim>\<open>UPDATE_HP_MAP\<close> whose only proxy is OFFLINE.\<close>

definition hpmap_cache :: pg_cache where
  "hpmap_cache =
     cache_of [(group_60 1 ZBX_PG_GROUP_STATUS_ONLINE [11])\<lparr>g_flags := ZBX_PG_GROUP_UPDATE_HP_MAP\<rparr>]
       [proxy_of 11 1 ZBX_PG_PROXY_STATUS_OFFLINE 1000 0] [1]"

text \<open>Bootstrap: one group, and two proxy rows with last access 1000 and 400.\<close>

definition boot_cache :: pg_cache where
  "boot_cache = cache_of [group_60 1 ZBX_PG_GROUP_STATUS_UNKNOWN []] [] []"

definition boot_rows :: "proxy_row list" where
  "boot_rows = [(11, 1, 1000, ''a''), (12, 1, 400, ''b'')]"

text \<open>A control loop whose operations leave the cache alone and whose queues are empty.\<close>

definition idle_ops :: "unit pgm_ops" where
  "idle_ops =
     \<lparr>op_update_groups = (\<lambda>c. c), op_update_status = (\<lambda>c. c), op_update_proxies = (\<lambda>c. c),
      op_sleep_loop = (\<lambda>c. c), op_flush_updates = (\<lambda>c. c),
      op_relocated_proxies_num = (\<lambda>c. 0), op_group_updates_num = (\<lambda>c. 0)\<rparr>"

text \<open>
  A database whose \<^verbatim>\<open>proxy\<close> table has proxy 5 only, and a cache with group 3 and the
  relocations of the unknown proxies 5 and 7 into it.
\<close>

definition db_of :: "nat list \<Rightarrow> (nat \<times> string) list \<Rightarrow> db" where
  "db_of hs ps =
     \<lparr>db_hosts = hs, db_proxy = ps, db_proxy_group = [], db_host_proxy = [],
      db_ids_revision = None, db_log = []\<rparr>"

definition reloc_cache :: pg_cache where
  "reloc_cache =
     (cache_of [group_60 3 ZBX_PG_GROUP_STATUS_ONLINE []] [] [])
       \<lparr>relocated_proxies := [\<lparr>objid = 5, srcid = 0, dstid = 3\<rparr>, \<lparr>objid = 7, srcid = 0, dstid = 3\<rparr>]\<rparr>"

text \<open>2500 new mappings of existing hosts to the existing proxy 1.\<close>

definition many_hosts :: "pg_host list" where
  "many_hosts = map (\<lambda>i. \<lparr>h_hostid = i, h_proxyid = 1, h_revision = 1\<rparr>) [0..<2500]"

definition many_db :: db where
  "many_db = db_of [0..<2500] [(1, ''p'')]"

text \<open>
  A snapshot with two group updates, the first flagged \<^verbatim>\<open>UPDATE_HP_MAP\<close> and the second
  \<^verbatim>\<open>UPDATE_STATUS\<close>, and one new mapping.
\<close>

definition some_updates :: pg_updates where
  "some_updates =
     \<lparr>u_groups =
        [\<lparr>u_proxy_groupid = 1, u_status = ZBX_PG_GROUP_STATUS_ONLINE,
          u_flags = ZBX_PG_GROUP_UPDATE_HP_MAP\<rparr>,
         \<lparr>u_proxy_groupid = 2, u_status = ZBX_PG_GROUP_STATUS_DECAY,
          u_flags = ZBX_PG_GROUP_UPDATE_STATUS\<rparr>],
      u_hosts_new = [\<lparr>h_hostid = 20, h_proxyid = 11, h_revision = 7\<rparr>],
      u_hosts_mod = [], u_hosts_del = []\<rparr>"

text \<open>A relocation whose source and destination are both 0.\<close>

definition null_reloc :: objmove where
  "null_reloc = \<lparr>objid = 5, srcid = 0, dstid = 0\<rparr>"

text \<open>
  A database with host 20, proxy 11, the groups 1 and 2 and no revision row.
\<close>

definition flushed_db :: db where
  "flushed_db = (db_of [20] [(11, ''a'')])
     \<lparr>db_proxy_group := [(1, ZBX_PG_GROUP_STATUS_UNKNOWN), (2, ZBX_PG_GROUP_STATUS_ONLINE)]\<rparr>"

section \<open>Status evaluator: properties\<close>

lemmas state_defs =
  group_60_def proxy_of_def cache_of_def dc_lastaccess_def
  zbx_dc_get_group_proxy_lastaccess_def group_search_def proxy_search_def group_store_def
  proxy_store_def pg_cache_queue_group_update_def PGM_STATUS_CHECK_INTERVAL_def
  ZBX_PG_GROUP_UPDATE_STATUS_def ZBX_PG_GROUP_UPDATE_HP_MAP_def

lemmas status_defs =
  pgm_update_status_def pgm_update_proxy_status_def pgm_update_group_status_def
  pgm_group_status_def pgm_group_apply_status_def

text \<open>
  Claim C1 (per-proxy status classification): a proxy with
  \<open>now - lastaccess \<ge> failover_delay\<close> and \<open>now - startup_time \<ge> failover_delay\<close> is set
  OFFLINE with \<open>firstaccess\<close> reset to 0, and its group is queued.

  The source first overwrites \<^verbatim>\<open>lastaccess\<close> with \<^verbatim>\<open>now\<close>. At time 1000 the proxy of
  \<open>silent_cache\<close> was last heard at 900, the failover delay is 60 and the manager started at
  0: the evaluator leaves the proxy ONLINE with \<open>firstaccess = 100\<close>, sets its
  \<open>lastaccess\<close> to 1000 and queues no group.
\<close>

theorem pgm_update_status_silent_proxy_kept_online:
  "pgm_update_status dc_lastaccess 1000 silent_cache =
     Inr (silent_cache\<lparr>proxies := [proxy_of 10 1 ZBX_PG_PROXY_STATUS_ONLINE 1000 100]\<rparr>)"
  by (simp add: silent_cache_def status_defs state_defs)

text \<open>
  With a positive failover delay the first loop takes the OFFLINE branch for no proxy at
  all: the status it computes is ONLINE or UNKNOWN.
\<close>

lemma pgm_update_proxy_status_never_offline:
  "0 < failover_delay \<Longrightarrow>
   p_status (fst (pgm_update_proxy_status now startup failover_delay proxy))
     \<in> {p_status proxy, ZBX_PG_PROXY_STATUS_ONLINE}"
  by (simp add: pgm_update_proxy_status_def Let_def)

text \<open>
  Claim C2 (RECOVERY to ONLINE): a group in RECOVERY with \<open>min_online \<le> healthy\<close> and
  \<open>now - status_time > failover_delay\<close>, or with all its proxies ONLINE, becomes ONLINE.

  The source assigns RECOVERY in that branch. The group of \<open>recovery_cache\<close> has been in
  RECOVERY since time 0 with failover delay 60 and quorum 1, and its only proxy is ONLINE
  and healthy: at time 1000 the evaluator counts \<open>online = healthy = 1\<close> and changes
  nothing, so the group stays in RECOVERY.
\<close>

theorem pgm_update_status_recovery_kept:
  "pgm_count_proxies 1000 (proxies recovery_cache)
     (group_60 1 ZBX_PG_GROUP_STATUS_RECOVERY [11]) 0 1 (0, 0) = Inr (1, 1)
   \<and> pgm_update_status dc_lastaccess 1000 recovery_cache = Inr recovery_cache"
  by (simp add: recovery_cache_def status_defs state_defs)

text \<open>No count and no time takes a group from RECOVERY to ONLINE.\<close>

lemma pgm_group_status_recovery_never_online:
  "pgm_group_status now (grp\<lparr>g_status := ZBX_PG_GROUP_STATUS_RECOVERY\<rparr>) online healthy
     \<noteq> ZBX_PG_GROUP_STATUS_ONLINE"
  by (simp add: pgm_group_status_def)

text \<open>
  Claim C3 (per-group counting): \<open>online\<close> is the number of the group's own proxies that
  are ONLINE, each member counted once, and \<open>healthy\<close> the number of those within the
  window.

  The source reads \<^verbatim>\<open>group->proxies.values[i]\<close> with the index \<^verbatim>\<open>i\<close> of the group in
  \<^verbatim>\<open>group_updates\<close> in every iteration. The group of \<open>mixed_cache\<close> is at index 0 and has
  the proxies 11 (ONLINE) and 12 (OFFLINE): the loop counts proxy 11 twice,
  \<open>online = healthy = 2\<close>, and with quorum 2 the OFFLINE group goes to RECOVERY although
  one proxy is ONLINE.
\<close>

theorem pgm_update_status_counts_indexed_proxy:
  "pgm_count_proxies 1000
     [proxy_of 11 1 ZBX_PG_PROXY_STATUS_ONLINE 1000 100,
      proxy_of 12 1 ZBX_PG_PROXY_STATUS_OFFLINE 1000 1000]
     ((group_60 1 ZBX_PG_GROUP_STATUS_OFFLINE [11, 12])\<lparr>g_min_online := 2\<rparr>) 0 2 (0, 0)
     = Inr (2, 2)
   \<and> pgm_update_status dc_lastaccess 1000 mixed_cache =
       Inr (mixed_cache
             \<lparr>groups := [(group_60 1 ZBX_PG_GROUP_STATUS_RECOVERY [11, 12])
                           \<lparr>g_min_online := 2, g_status_time := 1000,
                            g_flags := ZBX_PG_GROUP_UPDATE_STATUS\<rparr>],
              proxies := [proxy_of 11 1 ZBX_PG_PROXY_STATUS_ONLINE 1000 100,
                          proxy_of 12 1 ZBX_PG_PROXY_STATUS_OFFLINE 1000 1000]\<rparr>)"
  by (simp add: mixed_cache_def status_defs state_defs numeral_2_eq_2)

text \<open>
  With two queued groups of one proxy each, the second group is at index 1 and the read
  of its \<^verbatim>\<open>proxies.values[1]\<close> is past the end of the vector.
\<close>

lemma pgm_update_status_reads_past_vector:
  "pgm_update_status dc_lastaccess 1000 two_group_cache = Inl OutOfBounds"
  by (simp add: two_group_cache_def status_defs state_defs)

text \<open>
  Claim C6 (group status-change bookkeeping): when the computed status differs,
  \<open>status_time\<close> is set to \<open>now\<close> and the \<^verbatim>\<open>UPDATE_STATUS\<close> bit is set while the
  \<^verbatim>\<open>UPDATE_HP_MAP\<close> bit, if set, stays set; otherwise \<open>status_time\<close> and \<open>flags\<close> are
  unchanged.

  The source assigns \<^verbatim>\<open>group->flags = ZBX_PG_GROUP_UPDATE_STATUS\<close>. The ONLINE group of
  \<open>hpmap_cache\<close> carries \<^verbatim>\<open>UPDATE_HP_MAP\<close> and its only proxy is OFFLINE: at time 1000
  the group goes to DECAY, \<open>status_time\<close> becomes 1000 and the flags become
  \<^verbatim>\<open>UPDATE_STATUS\<close> alone, without the \<^verbatim>\<open>UPDATE_HP_MAP\<close> bit.
\<close>

theorem pgm_update_status_flags_overwritten:
  "ZBX_PG_GROUP_UPDATE_STATUS AND ZBX_PG_GROUP_UPDATE_HP_MAP = 0
   \<and> pgm_update_status dc_lastaccess 1000 hpmap_cache =
       Inr (hpmap_cache
             \<lparr>groups := [(group_60 1 ZBX_PG_GROUP_STATUS_DECAY [11])
                           \<lparr>g_status_time := 1000, g_flags := ZBX_PG_GROUP_UPDATE_STATUS\<rparr>],
              proxies := [proxy_of 11 1 ZBX_PG_PROXY_STATUS_OFFLINE 1000 1000]\<rparr>)"
  by (simp add: hpmap_cache_def status_defs state_defs)

text \<open>What the final block does in general.\<close>

lemma pgm_group_apply_status_changed:
  "status \<noteq> g_status grp \<Longrightarrow>
   pgm_group_apply_status now status grp =
     grp\<lparr>g_status := status, g_status_time := now, g_flags := ZBX_PG_GROUP_UPDATE_STATUS\<rparr>"
  by (simp add: pgm_group_apply_status_def)

lemma pgm_group_apply_status_same:
  "pgm_group_apply_status now (g_status grp) grp = grp"
  by (simp add: pgm_group_apply_status_def)

section \<open>Bootstrap: properties\<close>

text \<open>
  Claim C4 (bootstrap proxy classification): the reference clock is the maximum of the
  stowed last accesses, and a proxy ends OFFLINE if \<open>clock - firstaccess \<ge> failover_delay\<close>
  and ONLINE otherwise, with \<open>firstaccess\<close> cleared; proxies last seen 600 seconds
  before the maximum with failover delay 60 end OFFLINE.

  The source never assigns \<^verbatim>\<open>clock\<close> and ends the loop by forcing ONLINE. With the rows
  of \<open>boot_rows\<close>, last access 1000 for proxy 11 and 400 for proxy 12, and failover delay
  60, both proxies end ONLINE.
\<close>

theorem pgm_db_get_proxies_all_online:
  "pgm_db_get_proxies boot_rows boot_cache =
     Inr (boot_cache
           \<lparr>groups := [group_60 1 ZBX_PG_GROUP_STATUS_UNKNOWN [11, 12]],
            proxies := [(proxy_of 11 1 ZBX_PG_PROXY_STATUS_ONLINE 0 0)\<lparr>p_name := Some ''a''\<rparr>,
                        (proxy_of 12 1 ZBX_PG_PROXY_STATUS_ONLINE 0 0)\<lparr>p_name := Some ''b''\<rparr>]\<rparr>)"
  by (simp add: pgm_db_get_proxies_def boot_rows_def boot_cache_def pg_cache_group_add_proxy_def
      state_defs)

section \<open>Control loop: properties\<close>

text \<open>
  Claim C5 (control-loop cadence): group sync and status evaluation run in an iteration
  if and only if at least \<^verbatim>\<open>CHECK_INTERVAL\<close> (5) seconds have passed since the last update,
  sync before evaluation.

  The source tests \<^verbatim>\<open>PGM_STATUS_CHECK_INTERVAL >= time_update - time_now\<close>. One second
  after an update at time 100 the iteration calls both, in that order.
\<close>

theorem pg_manager_iteration_runs_after_one_second:
  "(101 :: real) - 100 < real_of_int PGM_STATUS_CHECK_INTERVAL
   \<and> t_calls (pg_manager_iteration idle_ops 101 \<lparr>t_time_update = 100, t_cache = (), t_calls = []\<rparr>)
       = [CALL_pgm_update_groups, CALL_pgm_update_status, CALL_zbx_sleep_loop]"
  by (simp add: pg_manager_iteration_def idle_ops_def pgm_call_def PGM_STATUS_CHECK_INTERVAL_def)

text \<open>Whenever the clock has not gone back, both are called first, whatever time has passed.\<close>

lemma pg_manager_iteration_always_runs:
  "t_time_update t \<le> time_now \<Longrightarrow>
   take 2 (drop (length (t_calls t)) (t_calls (pg_manager_iteration ops time_now t)))
     = [CALL_pgm_update_groups, CALL_pgm_update_status]"
  by (simp add: pg_manager_iteration_def pgm_call_def PGM_STATUS_CHECK_INTERVAL_def Let_def)

section \<open>Proxy relocator: properties\<close>

text \<open>
  Claim C7 (relocation name resolution): the names are fetched in one query with the
  lock released, the names list has one entry per identifier of the sorted, deduplicated
  list, also for identifiers the query did not return, and a relocation with
  \<open>dstid \<noteq> 0\<close> whose proxy is not in the database creates a proxy with an empty name.

  The fetch loop of the source stops at the last row. With the proxies 5 and 7 asked for
  and only proxy 5 in the database, the names list has one entry for two identifiers, and
  the relocation of proxy 7 reads \<^verbatim>\<open>names.values[1]\<close> past its end.
\<close>

theorem pgm_get_proxy_names_short:
  "pgm_get_proxy_names (db_of [] [(5, ''five'')]) [5, 7] = [Some ''five'']
   \<and> pgm_update_proxies (db_of [] [(5, ''five'')]) reloc_cache = Inl OutOfBounds"
  by (simp add: pgm_get_proxy_names_def db_select_proxy_names_def db_of_def pgm_update_proxies_def
      reloc_cache_def sort_uniq_def pgm_relocate_proxy_def pg_cache_group_add_proxy_def state_defs)

text \<open>
  An identifier missing before a returned one gets the entry \<^verbatim>\<open>NULL\<close>, which is the name
  the new proxy is created with.
\<close>

lemma pgm_get_proxy_names_null:
  "pgm_get_proxy_names (db_of [] [(7, ''seven'')]) [5, 7] = [None, Some ''seven'']"
  by (simp add: pgm_get_proxy_names_def db_select_proxy_names_def db_of_def)

lemma relocate_null:
  "srcid e = 0 \<Longrightarrow> dstid e = 0 \<Longrightarrow> pgm_relocate_proxy proxyids names e cache = Inr cache"
  by (simp add: pgm_relocate_proxy_def)

lemma collect_null:
  "dstid e = 0 \<Longrightarrow>
   pgm_update_proxies_collect ps (xs @ e # ys) acc = pgm_update_proxies_collect ps (xs @ ys) acc"
  by (induction xs arbitrary: acc) simp_all

lemma relocate_loop_null:
  "srcid e = 0 \<Longrightarrow> dstid e = 0 \<Longrightarrow>
   pgm_update_proxies_relocate proxyids names (xs @ e # ys) cache =
   pgm_update_proxies_relocate proxyids names (xs @ ys) cache"
  by (induction xs arbitrary: cache) (simp_all add: relocate_null split: sum.splits)

text \<open>The relocation loop neither reads nor writes the queue held in the cache.\<close>

lemma relocate_frame:
  "pgm_relocate_proxy proxyids names ev (cache\<lparr>relocated_proxies := r\<rparr>) =
   map_sum id (\<lambda>c. c\<lparr>relocated_proxies := r\<rparr>) (pgm_relocate_proxy proxyids names ev cache)"
  by (simp add: pgm_relocate_proxy_def pg_cache_group_remove_proxy_def pg_cache_group_add_proxy_def
      pg_cache_proxy_free_def Let_def split: option.splits)

lemma relocate_loop_frame:
  "pgm_update_proxies_relocate proxyids names evs (cache\<lparr>relocated_proxies := r\<rparr>) =
   map_sum id (\<lambda>c. c\<lparr>relocated_proxies := r\<rparr>)
     (pgm_update_proxies_relocate proxyids names evs cache)"
proof (induction evs arbitrary: cache)
  case Nil
  show ?case by simp
next
  case (Cons ev evs)
  show ?case
  proof (cases "pgm_relocate_proxy proxyids names ev cache")
    case (Inl e)
    then show ?thesis by (simp add: relocate_frame)
  next
    case (Inr c)
    then show ?thesis by (simp add: relocate_frame Cons.IH)
  qed
qed

lemma update_proxies_queue:
  "pgm_update_proxies d (cache\<lparr>relocated_proxies := evs\<rparr>) =
     (let proxyids = pgm_update_proxies_collect (proxies cache) evs [];
          (proxyids, names) =
            (if 0 \<noteq> length proxyids
             then (let proxyids = sort_uniq proxyids in (proxyids, pgm_get_proxy_names d proxyids))
             else (proxyids, []))
      in map_sum id (\<lambda>c. c\<lparr>relocated_proxies := []\<rparr>)
           (pgm_update_proxies_relocate proxyids names evs cache))"
proof -
  have m: "(case map_sum id (\<lambda>c. c\<lparr>relocated_proxies := evs\<rparr>) x of
              Inl e \<Rightarrow> Inl e | Inr c' \<Rightarrow> Inr (c'\<lparr>relocated_proxies := []\<rparr>))
           = map_sum id (\<lambda>c. c\<lparr>relocated_proxies := []\<rparr>) x" for x :: "error + pg_cache"
    by (cases x) simp_all
  show ?thesis
    by (simp add: pgm_update_proxies_def Let_def relocate_loop_frame m split: prod.splits)
qed

text \<open>
  Claim C10 (implicit): a relocation with \<open>srcid = 0\<close> and \<open>dstid = 0\<close> is a no-op on the
  cache: it creates, removes and frees no proxy, changes no host mapping and queues no
  group; the only effect of the pass on it is its removal when the queue is cleared.

  The loop body returns the cache it was given; the pass over a queue that holds the
  event at any place gives the result of the pass over the queue without it; and the pass
  over the queue of that event alone only empties the queue.
\<close>

theorem pgm_update_proxies_null_relocation:
  assumes "srcid e = 0" and "dstid e = 0"
  shows "pgm_relocate_proxy proxyids names e cache = Inr cache
       \<and> pgm_update_proxies d (cache\<lparr>relocated_proxies := xs @ e # ys\<rparr>) =
         pgm_update_proxies d (cache\<lparr>relocated_proxies := xs @ ys\<rparr>)
       \<and> pgm_update_proxies d (cache\<lparr>relocated_proxies := [e]\<rparr>) =
         Inr (cache\<lparr>relocated_proxies := []\<rparr>)"
proof -
  have a: "pgm_relocate_proxy proxyids names e cache = Inr cache"
    using assms by (rule relocate_null)
  have b: "pgm_update_proxies d (cache\<lparr>relocated_proxies := xs @ e # ys\<rparr>) =
           pgm_update_proxies d (cache\<lparr>relocated_proxies := xs @ ys\<rparr>)"
    by (simp only: update_proxies_queue collect_null [OF assms(2)]
        relocate_loop_null [OF assms])
  have c: "pgm_update_proxies d (cache\<lparr>relocated_proxies := [e]\<rparr>) =
           Inr (cache\<lparr>relocated_proxies := []\<rparr>)"
    using assms by (simp add: update_proxies_queue relocate_null)
  show ?thesis using a b c by blast
qed

theorem pgm_update_proxies_null_relocation_witness:
  "srcid null_reloc = 0 \<and> dstid null_reloc = 0
   \<and> pgm_update_proxies (db_of [] []) (reloc_cache\<lparr>relocated_proxies := [null_reloc]\<rparr>)
       = Inr (reloc_cache\<lparr>relocated_proxies := []\<rparr>)"
proof -
  have s: "srcid null_reloc = 0" and t: "dstid null_reloc = 0"
    by (simp_all add: null_reloc_def)
  have "pgm_update_proxies (db_of [] []) (reloc_cache\<lparr>relocated_proxies := [null_reloc]\<rparr>)
          = Inr (reloc_cache\<lparr>relocated_proxies := []\<rparr>)"
    using pgm_update_proxies_null_relocation
            [OF s t, where cache = reloc_cache and d = "db_of [] []"]
    by blast
  then show ?thesis using s t by blast
qed

section \<open>Persister: properties\<close>

declare insert_batches.simps [simp del]
declare pgm_db_flush_host_proxy_inserts_loop.simps [simp del]

lemma set_sort_uniq: "set (sort_uniq ids) = set ids"
  by (simp add: sort_uniq_def)

lemma recids_effect:
  "pgm_db_get_recids_for_update ids tbl d =
     (filter (\<lambda>i. i \<in> set ids) (case tbl of TBL_hosts \<Rightarrow> db_hosts d | TBL_proxy \<Rightarrow> map fst (db_proxy d)),
      d\<lparr>db_log := db_log d @ [DB_select_for_update tbl (sort_uniq ids)]\<rparr>)"
  by (simp add: pgm_db_get_recids_for_update_def db_exec_def Let_def set_sort_uniq)

lemma batch_rows:
  "filter (\<lambda>h. h_hostid h \<in> set (filter (\<lambda>i. i \<in> set (map h_hostid hosts)) (db_hosts d))
              \<and> h_proxyid h \<in> set (filter (\<lambda>i. i \<in> set (map h_proxyid hosts))
                                   (map fst (db_proxy d)))) hosts
   = filter (host_proxy_exist d) hosts"
  by (rule filter_cong) (auto simp: host_proxy_exist_def)

lemma insert_execute_effect:
  "zbx_db_insert_execute rows d =
     d\<lparr>db_host_proxy := db_host_proxy d @ rows,
       db_log := db_log d @ (if rows = [] then [] else [DB_insert_host_proxy rows])\<rparr>"
  by (simp add: zbx_db_insert_execute_def db_exec_def)

lemma insert_batch_effect:
  "pgm_db_flush_host_proxy_insert_batch hosts d =
     d\<lparr>db_host_proxy := db_host_proxy d @ filter (host_proxy_exist d) hosts,
       db_log := db_log d @ batch_statements d hosts\<rparr>"
  unfolding pgm_db_flush_host_proxy_insert_batch_def Let_def recids_effect prod.case
    insert_execute_effect
  using batch_rows [of hosts d]
  by (simp add: batch_statements_def)

lemma host_proxy_exist_frame:
  "db_hosts d' = db_hosts d \<Longrightarrow> db_proxy d' = db_proxy d \<Longrightarrow> host_proxy_exist d' = host_proxy_exist d"
  by (rule ext) (simp add: host_proxy_exist_def)

lemma batch_statements_frame:
  assumes "db_hosts d' = db_hosts d" and "db_proxy d' = db_proxy d"
  shows "batch_statements d' = batch_statements d"
  by (rule ext) (simp add: batch_statements_def host_proxy_exist_frame [OF assms])

lemma insert_batches_Nil: "insert_batches [] = []"
  by (simp add: insert_batches.simps [of "[]"])

lemma insert_batches_Cons:
  "hosts \<noteq> [] \<Longrightarrow> insert_batches hosts = take 1000 hosts # insert_batches (drop 1000 hosts)"
  by (subst insert_batches.simps) simp

lemma inserts_loop_effect:
  "pgm_db_flush_host_proxy_inserts_loop i hosts d =
     d\<lparr>db_host_proxy := db_host_proxy d @ filter (host_proxy_exist d) (drop i hosts),
       db_log := db_log d @ concat (map (batch_statements d) (insert_batches (drop i hosts)))\<rparr>"
proof (induction i hosts d rule: pgm_db_flush_host_proxy_inserts_loop.induct)
  case (1 i hosts d)
  show ?case
  proof (cases "i < length hosts")
    case False
    then show ?thesis
      by (simp add: pgm_db_flush_host_proxy_inserts_loop.simps [of i] insert_batches_Nil)
  next
    case True
    define b where "b = take 1000 (drop i hosts)"
    define d1 where "d1 = pgm_db_flush_host_proxy_insert_batch b d"
    have size: "take (if PGM_INSERT_BATCH_SIZE < length hosts - i then PGM_INSERT_BATCH_SIZE
                      else length hosts - i) (drop i hosts) = b"
      by (simp add: b_def PGM_INSERT_BATCH_SIZE_def)
    have step: "pgm_db_flush_host_proxy_inserts_loop i hosts d =
                pgm_db_flush_host_proxy_inserts_loop (i + PGM_INSERT_BATCH_SIZE) hosts d1"
      using True by (simp add: pgm_db_flush_host_proxy_inserts_loop.simps [of i] size d1_def Let_def)
    have IH: "pgm_db_flush_host_proxy_inserts_loop (i + PGM_INSERT_BATCH_SIZE) hosts d1 =
       d1\<lparr>db_host_proxy := db_host_proxy d1 @ filter (host_proxy_exist d1) (drop (i + PGM_INSERT_BATCH_SIZE) hosts),
          db_log := db_log d1 @ concat (map (batch_statements d1)
                      (insert_batches (drop (i + PGM_INSERT_BATCH_SIZE) hosts)))\<rparr>"
      using "1.IH" [OF True refl refl] size by (simp add: d1_def)
    have d1: "d1 = d\<lparr>db_host_proxy := db_host_proxy d @ filter (host_proxy_exist d) b,
                     db_log := db_log d @ batch_statements d b\<rparr>"
      by (simp add: d1_def insert_batch_effect)
    have ex: "host_proxy_exist d1 = host_proxy_exist d"
      by (rule host_proxy_exist_frame) (simp_all add: d1)
    have st: "batch_statements d1 = batch_statements d"
      by (rule batch_statements_frame) (simp_all add: d1)
    have dr: "drop (i + PGM_INSERT_BATCH_SIZE) hosts = drop 1000 (drop i hosts)"
      by (simp add: PGM_INSERT_BATCH_SIZE_def add.commute)
    have ne: "drop i hosts \<noteq> []" using True by simp
    have bs: "insert_batches (drop i hosts) = b # insert_batches (drop 1000 (drop i hosts))"
      using ne by (simp add: insert_batches_Cons b_def)
    have fl: "filter (host_proxy_exist d) (drop i hosts) =
              filter (host_proxy_exist d) b @ filter (host_proxy_exist d) (drop 1000 (drop i hosts))"
      by (simp only: b_def filter_append [symmetric] append_take_drop_id)
    show ?thesis
      unfolding step IH ex st dr bs fl by (simp add: d1)
  qed
qed

lemma concat_insert_batches: "concat (insert_batches hosts) = hosts"
proof (induction hosts rule: insert_batches.induct)
  case (1 hosts)
  show ?case
  proof (cases "hosts = []")
    case True
    then show ?thesis by (simp add: insert_batches_Nil)
  next
    case False
    then show ?thesis using "1.IH" [OF False] by (simp add: insert_batches_Cons)
  qed
qed

lemma insert_batches_bound:
  "list_all (\<lambda>b. 0 < length b \<and> length b \<le> 1000) (insert_batches hosts)"
proof (induction hosts rule: insert_batches.induct)
  case (1 hosts)
  show ?case
  proof (cases "hosts = []")
    case True
    then show ?thesis by (simp add: insert_batches_Nil)
  next
    case False
    then show ?thesis using "1.IH" [OF False] by (simp add: insert_batches_Cons)
  qed
qed

text \<open>
  Claim C8 (insert batching): the insert flush takes a list of N new mappings in
  consecutive batches of at most 1000; each batch first selects its host and proxy
  identifiers \<^verbatim>\<open>for update\<close> and skips exactly the rows whose host or proxy is not in
  the database; when all hosts and proxies exist, exactly N rows are inserted, also when
  N is beyond 1000.

  The rows of \<^verbatim>\<open>host_proxy\<close> after the flush are the rows before it followed by the
  mappings whose host and proxy exist; the statements sent are those of the batches, one
  after the other; the batches make up the list, and each has between 1 and 1000 rows.
\<close>

theorem pgm_db_flush_host_proxy_inserts_batches:
  "db_host_proxy (pgm_db_flush_host_proxy_inserts hosts d)
     = db_host_proxy d @ filter (host_proxy_exist d) hosts
   \<and> db_log (pgm_db_flush_host_proxy_inserts hosts d)
     = db_log d @ concat (map (batch_statements d) (insert_batches hosts))
   \<and> concat (insert_batches hosts) = hosts
   \<and> list_all (\<lambda>b. 0 < length b \<and> length b \<le> 1000) (insert_batches hosts)
   \<and> (list_all (host_proxy_exist d) hosts \<longrightarrow>
        length (db_host_proxy (pgm_db_flush_host_proxy_inserts hosts d))
          = length (db_host_proxy d) + length hosts)"
proof -
  have eff: "pgm_db_flush_host_proxy_inserts hosts d =
     d\<lparr>db_host_proxy := db_host_proxy d @ filter (host_proxy_exist d) hosts,
       db_log := db_log d @ concat (map (batch_statements d) (insert_batches hosts))\<rparr>"
    using inserts_loop_effect [of 0 hosts d]
    by (simp add: pgm_db_flush_host_proxy_inserts_def zbx_db_insert_execute_def)
  have all: "list_all (host_proxy_exist d) hosts \<Longrightarrow> filter (host_proxy_exist d) hosts = hosts"
    by (simp add: list_all_iff)
  have rows: "db_host_proxy (pgm_db_flush_host_proxy_inserts hosts d)
                = db_host_proxy d @ filter (host_proxy_exist d) hosts"
    by (simp add: eff)
  have log: "db_log (pgm_db_flush_host_proxy_inserts hosts d)
               = db_log d @ concat (map (batch_statements d) (insert_batches hosts))"
    by (simp add: eff)
  have count: "list_all (host_proxy_exist d) hosts \<longrightarrow>
        length (db_host_proxy (pgm_db_flush_host_proxy_inserts hosts d))
          = length (db_host_proxy d) + length hosts"
    using all by (simp add: rows)
  show ?thesis
    using rows log concat_insert_batches [of hosts] insert_batches_bound [of hosts] count
    by blast
qed

text \<open>2500 mappings of existing hosts and proxies are cut into three batches and all inserted.\<close>

lemma insert_batches_many: "map length (insert_batches many_hosts) = [1000, 1000, 500]"
  by (simp add: many_hosts_def insert_batches_Cons insert_batches_Nil take_map drop_map)

theorem pgm_db_flush_host_proxy_inserts_batches_witness:
  "list_all (host_proxy_exist many_db) many_hosts
   \<and> length (db_host_proxy (pgm_db_flush_host_proxy_inserts many_hosts many_db)) = 2500"
proof -
  have h: "list_all (host_proxy_exist many_db) many_hosts"
    by (simp add: list_all_iff host_proxy_exist_def many_db_def many_hosts_def db_of_def)
  have "length (db_host_proxy (pgm_db_flush_host_proxy_inserts many_hosts many_db))
          = length (db_host_proxy many_db) + length many_hosts"
    using pgm_db_flush_host_proxy_inserts_batches [of many_hosts many_db] h by blast
  then show ?thesis using h by (simp add: many_db_def many_hosts_def db_of_def)
qed

lemma flush_retry_down:
  "pgm_flush_retry (replicate k ZBX_DB_DOWN @ rest) u revision d =
     pgm_flush_retry rest u revision ((pgm_flush_attempt u revision ZBX_DB_DOWN ^^ k) d)"
  by (induction k arbitrary: d) (simp_all add: funpow_swap1 Let_def)

lemma flush_retry_all_down: "pgm_flush_retry (replicate k ZBX_DB_DOWN) u revision d = None"
  using flush_retry_down [of k "[]" u revision d] by simp

text \<open>Every statement is logged, and none changes the host or the proxy table.\<close>

lemma db_exec_log: "db_log (db_exec s d) = db_log d @ [s]"
  by (cases s) (simp_all add: db_exec_def)

lemma db_exec_hosts: "db_hosts (db_exec s d) = db_hosts d"
  by (cases s) (simp_all add: db_exec_def)

lemma db_exec_proxy: "db_proxy (db_exec s d) = db_proxy d"
  by (cases s) (simp_all add: db_exec_def)

lemma db_exec_log_frame: "db_exec s (d\<lparr>db_log := l\<rparr>) = (db_exec s d)\<lparr>db_log := l @ [s]\<rparr>"
  by (cases s) (simp_all add: db_exec_def)

lemma fold_db_exec_log: "db_log (fold db_exec ss d) = db_log d @ ss"
  by (induction ss arbitrary: d) (simp_all add: db_exec_log)

lemma fold_db_exec_hosts: "db_hosts (fold db_exec ss d) = db_hosts d"
  by (induction ss arbitrary: d) (simp_all add: db_exec_hosts)

lemma fold_db_exec_proxy: "db_proxy (fold db_exec ss d) = db_proxy d"
  by (induction ss arbitrary: d) (simp_all add: db_exec_proxy)

lemma fold_db_exec_log_frame:
  "fold db_exec ss (d\<lparr>db_log := l\<rparr>) = (fold db_exec ss d)\<lparr>db_log := l @ ss\<rparr>"
proof (induction ss arbitrary: d l)
  case Nil
  show ?case by simp
next
  case (Cons s ss)
  have "fold db_exec (s # ss) (d\<lparr>db_log := l\<rparr>) = fold db_exec ss ((db_exec s d)\<lparr>db_log := l @ [s]\<rparr>)"
    by (simp add: db_exec_log_frame)
  also have "\<dots> = (fold db_exec ss (db_exec s d))\<lparr>db_log := (l @ [s]) @ ss\<rparr>"
    by (rule Cons.IH)
  finally show ?case by simp
qed

lemma db_exec_ids: "\<not> revision_stmt s \<Longrightarrow> db_ids_revision (db_exec s d) = db_ids_revision d"
  by (cases s) (simp_all add: db_exec_def)

lemma fold_db_exec_ids:
  "list_all (\<lambda>s. \<not> revision_stmt s) ss \<Longrightarrow> db_ids_revision (fold db_exec ss d) = db_ids_revision d"
  by (induction ss arbitrary: d) (simp_all add: db_exec_ids)

lemma group_updates_fold:
  "pgm_db_flush_group_updates gs d =
     fold db_exec (map (\<lambda>g. DB_update_proxy_group (u_proxy_groupid g) (u_status g))
                    (filter (\<lambda>g. u_flags g AND ZBX_PG_GROUP_UPDATE_STATUS \<noteq> 0) gs)) d"
  unfolding pgm_db_flush_group_updates_def
  by (induction gs arbitrary: d) auto

lemma host_proxy_updates_fold:
  "pgm_db_flush_host_proxy_updates hosts d =
     fold db_exec (map (\<lambda>h. DB_update_host_proxy (h_proxyid h) (h_revision h) (h_hostid h)) hosts) d"
  by (simp add: pgm_db_flush_host_proxy_updates_def fold_map comp_def)

lemma host_proxy_deletes_fold:
  "pgm_db_flush_host_proxy_deletes hosts d =
     fold db_exec (if hosts = [] then [] else [DB_delete_host_proxy (sort (map h_hostid hosts))]) d"
  by (simp add: pgm_db_flush_host_proxy_deletes_def)

lemma batch_statements_fold:
  "host_proxy_exist d = host_proxy_exist d0 \<Longrightarrow>
   fold db_exec (batch_statements d0 b) d =
     d\<lparr>db_host_proxy := db_host_proxy d @ filter (host_proxy_exist d0) b,
       db_log := db_log d @ batch_statements d0 b\<rparr>"
  by (simp add: batch_statements_def db_exec_def)

lemma batches_fold:
  "fold db_exec (concat (map (batch_statements d0) bs)) d =
     d\<lparr>db_host_proxy := db_host_proxy d @ filter (host_proxy_exist d0) (concat bs),
       db_log := db_log d @ concat (map (batch_statements d0) bs)\<rparr>"
proof (induction bs arbitrary: d)
  case Nil
  show ?case by simp
next
  case (Cons b bs)
  have one: "fold db_exec (batch_statements d0 b) d =
     d\<lparr>db_host_proxy := db_host_proxy d @ filter (host_proxy_exist d0) b,
       db_log := db_log d @ batch_statements d0 b\<rparr>"
    by (simp add: batch_statements_def db_exec_def)
  show ?case
    by (simp only: list.map concat.simps fold_append comp_apply one Cons.IH) simp
qed

lemma host_proxy_inserts_fold:
  "pgm_db_flush_host_proxy_inserts hosts d =
     fold db_exec (concat (map (batch_statements d) (insert_batches hosts))) d"
  using inserts_loop_effect [of 0 hosts d]
  by (simp add: batches_fold concat_insert_batches pgm_db_flush_host_proxy_inserts_def
      zbx_db_insert_execute_def)

lemma host_proxy_revision_fold:
  "pgm_db_flush_host_proxy_revision revision d =
     fold db_exec [DB_select_revision,
                   case db_ids_revision d of
                     None \<Rightarrow> DB_insert_revision revision
                   | Some r \<Rightarrow> DB_update_revision revision] d"
  by (simp add: pgm_db_flush_host_proxy_revision_def db_exec_def split: option.splits)

lemma flush_body_fold:
  "pgm_flush_body u revision d = fold db_exec (body_statements u revision d) d"
proof -
  define s1 where "s1 = [DB_begin] @ map (\<lambda>g. DB_update_proxy_group (u_proxy_groupid g) (u_status g))
         (filter (\<lambda>g. u_flags g AND ZBX_PG_GROUP_UPDATE_STATUS \<noteq> 0) (u_groups u))
     @ map (\<lambda>h. DB_update_host_proxy (h_proxyid h) (h_revision h) (h_hostid h)) (u_hosts_mod u)
     @ (if u_hosts_del u = [] then []
        else [DB_delete_host_proxy (sort (map h_hostid (u_hosts_del u)))])"
  define s2 where "s2 = concat (map (batch_statements d) (insert_batches (u_hosts_new u)))"
  define d1 where "d1 = fold db_exec s1 d"
  define d2 where "d2 = fold db_exec s2 d1"
  have a: "pgm_db_flush_host_proxy_deletes (u_hosts_del u)
            (pgm_db_flush_host_proxy_updates (u_hosts_mod u)
              (pgm_db_flush_group_updates (u_groups u) (db_exec DB_begin d))) = d1"
    by (simp add: d1_def s1_def group_updates_fold host_proxy_updates_fold host_proxy_deletes_fold)
  have bs: "batch_statements d1 = batch_statements d"
    by (rule batch_statements_frame) (simp_all add: d1_def fold_db_exec_hosts fold_db_exec_proxy)
  have b: "pgm_db_flush_host_proxy_inserts (u_hosts_new u) d1 = d2"
    by (simp add: host_proxy_inserts_fold bs d2_def s2_def)
  have n1: "list_all (\<lambda>s. \<not> revision_stmt s) s1"
    by (simp add: s1_def list_all_iff) auto
  have n2: "list_all (\<lambda>s. \<not> revision_stmt s) s2"
    by (auto simp: s2_def list_all_iff batch_statements_def)
  have ids: "db_ids_revision d2 = db_ids_revision d"
    by (simp add: d2_def d1_def fold_db_exec_ids n1 n2)
  have c: "pgm_flush_body u revision d = pgm_db_flush_host_proxy_revision revision d2"
    by (simp add: pgm_flush_body_def Let_def a b)
  define s3 where "s3 = [DB_select_revision,
           case db_ids_revision d of
             None \<Rightarrow> DB_insert_revision revision
           | Some r \<Rightarrow> DB_update_revision revision]"
  have st: "body_statements u revision d = s1 @ s2 @ s3"
    by (simp add: body_statements_def s1_def s2_def s3_def)
  have "pgm_flush_body u revision d = fold db_exec s3 d2"
    by (simp only: c host_proxy_revision_fold ids s3_def)
  also have "\<dots> = fold db_exec (s1 @ s2 @ s3) d"
    by (simp only: fold_append comp_apply d2_def d1_def)
  finally show ?thesis by (simp only: st)
qed

lemma body_statements_log_frame:
  "body_statements u revision (d\<lparr>db_log := l\<rparr>) = body_statements u revision d"
proof -
  have "batch_statements (d\<lparr>db_log := l\<rparr>) = batch_statements d"
    by (rule batch_statements_frame) simp_all
  then show ?thesis by (simp add: body_statements_def)
qed

lemma flush_attempt_effect:
  "pgm_flush_attempt u revision ret d =
     (if ZBX_DB_OK \<le> ret then fold db_exec (body_statements u revision d) d else d)
       \<lparr>db_log := db_log d @ body_statements u revision d @ [DB_commit ret]\<rparr>"
  by (simp add: pgm_flush_attempt_def zbx_db_commit_def flush_body_fold fold_db_exec_log)

lemma flush_attempt_log_frame:
  "pgm_flush_attempt u revision ret (d\<lparr>db_log := l\<rparr>) =
     (if ZBX_DB_OK \<le> ret then fold db_exec (body_statements u revision d) d else d)
       \<lparr>db_log := l @ body_statements u revision d @ [DB_commit ret]\<rparr>"
  by (simp add: flush_attempt_effect body_statements_log_frame fold_db_exec_log_frame)

lemma flush_retry_rounds:
  "pgm_flush_retry (replicate k ZBX_DB_DOWN @ rest) u revision (d\<lparr>db_log := l\<rparr>) =
     pgm_flush_retry rest u revision
       (d\<lparr>db_log := l @ concat (replicate k (body_statements u revision d
                                               @ [DB_commit ZBX_DB_DOWN]))\<rparr>)"
proof (induction k arbitrary: l)
  case 0
  show ?case by simp
next
  case (Suc k)
  have "pgm_flush_attempt u revision ZBX_DB_DOWN (d\<lparr>db_log := l\<rparr>) =
          d\<lparr>db_log := l @ body_statements u revision d @ [DB_commit ZBX_DB_DOWN]\<rparr>"
    by (simp add: flush_attempt_log_frame ZBX_DB_OK_def ZBX_DB_DOWN_def)
  then show ?case by (simp add: Let_def Suc.IH)
qed

text \<open>
  Claim C9 (commit retry and publication): in a flush of a non-empty snapshot the whole
  transaction body is executed again as long as the commit reports the database down, and
  the revision is published to the configuration cache if and only if the commit
  succeeds, with exactly the identifiers of the drained groups that carry
  \<^verbatim>\<open>UPDATE_HP_MAP\<close>.

  When the first \<open>k\<close> commits report the database down and the next returns \<open>ret\<close>, the
  flush returns. The database has then received \<open>k + 1\<close> times all the statements of the
  body, each round followed by its commit; its tables are those the statements of the
  body produce if \<open>ZBX_DB_OK \<le> ret\<close> and those before the flush otherwise. The
  configuration cache has received one more call, with those identifiers and the
  revision, if \<open>ZBX_DB_OK \<le> ret\<close>, and none otherwise. While every commit reports the
  database down the flush has not returned.
\<close>

theorem pgm_flush_updates_retry_publish:
  assumes "u_groups u \<noteq> [] \<or> u_hosts_new u \<noteq> [] \<or> u_hosts_mod u \<noteq> [] \<or> u_hosts_del u \<noteq> []"
    and "ret \<noteq> ZBX_DB_DOWN"
  shows "pgm_flush_updates (replicate k ZBX_DB_DOWN @ ret # rest) u revision (d, dc) =
           Some ((if ZBX_DB_OK \<le> ret then fold db_exec (body_statements u revision d) d else d)
                   \<lparr>db_log := db_log d
                      @ concat (replicate k (body_statements u revision d @ [DB_commit ZBX_DB_DOWN]))
                      @ body_statements u revision d @ [DB_commit ret]\<rparr>,
                 if ZBX_DB_OK \<le> ret
                 then dc @ [(map u_proxy_groupid
                               (filter (\<lambda>g. u_flags g AND ZBX_PG_GROUP_UPDATE_HP_MAP \<noteq> 0) (u_groups u)),
                             revision)]
                 else dc)
         \<and> pgm_flush_updates (replicate k ZBX_DB_DOWN) u revision (d, dc) = None"
proof -
  have ne: "0 \<noteq> length (u_groups u) \<or> 0 \<noteq> length (u_hosts_new u)
            \<or> 0 \<noteq> length (u_hosts_mod u) \<or> 0 \<noteq> length (u_hosts_del u)"
    using assms(1) by auto
  have flt: "(\<lambda>g. 0 \<noteq> (u_flags g AND ZBX_PG_GROUP_UPDATE_HP_MAP)) =
             (\<lambda>g. u_flags g AND ZBX_PG_GROUP_UPDATE_HP_MAP \<noteq> 0)"
    by (rule ext) auto
  have one: "pgm_flush_retry (ret # rest) u revision d' = Some (ret, pgm_flush_attempt u revision ret d')" for d'
    using assms(2) by (auto simp: Let_def)
  have "pgm_flush_retry (replicate k ZBX_DB_DOWN @ ret # rest) u revision (d\<lparr>db_log := db_log d\<rparr>) =
          Some (ret, (if ZBX_DB_OK \<le> ret then fold db_exec (body_statements u revision d) d else d)
                   \<lparr>db_log := db_log d
                      @ concat (replicate k (body_statements u revision d @ [DB_commit ZBX_DB_DOWN]))
                      @ body_statements u revision d @ [DB_commit ret]\<rparr>)"
    by (simp only: flush_retry_rounds one flush_attempt_log_frame append_assoc)
  then have r: "pgm_flush_retry (replicate k ZBX_DB_DOWN @ ret # rest) u revision d =
          Some (ret, (if ZBX_DB_OK \<le> ret then fold db_exec (body_statements u revision d) d else d)
                   \<lparr>db_log := db_log d
                      @ concat (replicate k (body_statements u revision d @ [DB_commit ZBX_DB_DOWN]))
                      @ body_statements u revision d @ [DB_commit ret]\<rparr>)"
    by simp
  have a: "pgm_flush_updates (replicate k ZBX_DB_DOWN @ ret # rest) u revision (d, dc) =
           Some ((if ZBX_DB_OK \<le> ret then fold db_exec (body_statements u revision d) d else d)
                   \<lparr>db_log := db_log d
                      @ concat (replicate k (body_statements u revision d @ [DB_commit ZBX_DB_DOWN]))
                      @ body_statements u revision d @ [DB_commit ret]\<rparr>,
                 if ZBX_DB_OK \<le> ret
                 then dc @ [(map u_proxy_groupid
                               (filter (\<lambda>g. u_flags g AND ZBX_PG_GROUP_UPDATE_HP_MAP \<noteq> 0) (u_groups u)),
                             revision)]
                 else dc)"
    using ne by (simp add: pgm_flush_updates_def r pgm_dc_flush_host_proxy_revision_def flt)
  have b: "pgm_flush_updates (replicate k ZBX_DB_DOWN) u revision (d, dc) = None"
    using ne by (simp add: pgm_flush_updates_def flush_retry_all_down)
  show ?thesis using a b by blast
qed

text \<open>
  Two commits that report the database down and a third that succeeds: the three rounds
  in the log, the tables of the committed round, and one publication for group 1.
\<close>

theorem pgm_flush_updates_retry_publish_witness:
  "u_groups some_updates \<noteq> [] \<and> ZBX_DB_OK \<noteq> ZBX_DB_DOWN
   \<and> pgm_flush_updates [ZBX_DB_DOWN, ZBX_DB_DOWN, ZBX_DB_OK] some_updates 7 (flushed_db, []) =
       Some (\<lparr>db_hosts = [20], db_proxy = [(11, ''a'')],
              db_proxy_group = [(1, ZBX_PG_GROUP_STATUS_UNKNOWN), (2, ZBX_PG_GROUP_STATUS_DECAY)],
              db_host_proxy = [\<lparr>h_hostid = 20, h_proxyid = 11, h_revision = 7\<rparr>],
              db_ids_revision = Some 7,
              db_log =
                [DB_begin, DB_update_proxy_group 2 ZBX_PG_GROUP_STATUS_DECAY,
                 DB_select_for_update TBL_hosts [20], DB_select_for_update TBL_proxy [11],
                 DB_insert_host_proxy [\<lparr>h_hostid = 20, h_proxyid = 11, h_revision = 7\<rparr>],
                 DB_select_revision, DB_insert_revision 7, DB_commit ZBX_DB_DOWN,
                 DB_begin, DB_update_proxy_group 2 ZBX_PG_GROUP_STATUS_DECAY,
                 DB_select_for_update TBL_hosts [20], DB_select_for_update TBL_proxy [11],
                 DB_insert_host_proxy [\<lparr>h_hostid = 20, h_proxyid = 11, h_revision = 7\<rparr>],
                 DB_select_revision, DB_insert_revision 7, DB_commit ZBX_DB_DOWN,
                 DB_begin, DB_update_proxy_group 2 ZBX_PG_GROUP_STATUS_DECAY,
                 DB_select_for_update TBL_hosts [20], DB_select_for_update TBL_proxy [11],
                 DB_insert_host_proxy [\<lparr>h_hostid = 20, h_proxyid = 11, h_revision = 7\<rparr>],
                 DB_select_revision, DB_insert_revision 7, DB_commit ZBX_DB_OK]\<rparr>,
             [([1], 7)])
   \<and> pgm_flush_updates [ZBX_DB_DOWN, ZBX_DB_DOWN] some_updates 7 (flushed_db, []) = None"
proof -
  have s: "body_statements some_updates 7 flushed_db =
             [DB_begin, DB_update_proxy_group 2 ZBX_PG_GROUP_STATUS_DECAY,
              DB_select_for_update TBL_hosts [20], DB_select_for_update TBL_proxy [11],
              DB_insert_host_proxy [\<lparr>h_hostid = 20, h_proxyid = 11, h_revision = 7\<rparr>],
              DB_select_revision, DB_insert_revision 7]"
    by (simp add: body_statements_def some_updates_def flushed_db_def db_of_def
        ZBX_PG_GROUP_UPDATE_HP_MAP_def ZBX_PG_GROUP_UPDATE_STATUS_def insert_batches_Cons
        insert_batches_Nil batch_statements_def host_proxy_exist_def sort_uniq_def)
  have n: "u_groups some_updates \<noteq> [] \<or> u_hosts_new some_updates \<noteq> []
           \<or> u_hosts_mod some_updates \<noteq> [] \<or> u_hosts_del some_updates \<noteq> []"
    by (simp add: some_updates_def)
  have r: "ZBX_DB_OK \<noteq> ZBX_DB_DOWN"
    by (simp add: ZBX_DB_OK_def ZBX_DB_DOWN_def)
  have g: "u_groups some_updates \<noteq> []"
    by (simp add: some_updates_def)
  have e: "replicate 2 ZBX_DB_DOWN @ [ZBX_DB_OK] = [ZBX_DB_DOWN, ZBX_DB_DOWN, ZBX_DB_OK]"
    and e': "replicate 2 ZBX_DB_DOWN = [ZBX_DB_DOWN, ZBX_DB_DOWN]"
    by (simp_all add: numeral_2_eq_2)
  have f: "fold db_exec (body_statements some_updates 7 flushed_db) flushed_db =
       \<lparr>db_hosts = [20], db_proxy = [(11, ''a'')],
              db_proxy_group = [(1, ZBX_PG_GROUP_STATUS_UNKNOWN), (2, ZBX_PG_GROUP_STATUS_DECAY)],
              db_host_proxy = [\<lparr>h_hostid = 20, h_proxyid = 11, h_revision = 7\<rparr>],
              db_ids_revision = Some 7,
              db_log = body_statements some_updates 7 flushed_db\<rparr>"
    unfolding s by (simp add: db_exec_def flushed_db_def db_of_def)
  have u: "filter (\<lambda>g. u_flags g AND ZBX_PG_GROUP_UPDATE_HP_MAP \<noteq> 0) (u_groups some_updates)
            = [\<lparr>u_proxy_groupid = 1, u_status = ZBX_PG_GROUP_STATUS_ONLINE,
                u_flags = ZBX_PG_GROUP_UPDATE_HP_MAP\<rparr>]"
    by (simp add: some_updates_def ZBX_PG_GROUP_UPDATE_HP_MAP_def ZBX_PG_GROUP_UPDATE_STATUS_def)
  have l: "db_log flushed_db = []"
    by (simp add: flushed_db_def db_of_def)
  show ?thesis
    using pgm_flush_updates_retry_publish [OF n r, of 2 "[]" 7 flushed_db "[]"] g r
    unfolding e e' f u l
    by (simp add: s numeral_2_eq_2 ZBX_DB_OK_def)
qed

end
